theory Spec2Isabelle
  imports Complex_Main "HOL-Library.Multiset" "HOL-Library.AList"
begin

section \<open>MetricsAggregator: computeMetrics (data_collector_2/server/server.js)\<close>

text \<open>
  A row of the SQLite table \<open>raw_events\<close>, with the columns that \<open>computeMetrics\<close>
  reads. A nullable column is an \<open>option\<close> (\<open>None\<close> is SQL NULL). The table is the
  list of its rows.
\<close>

record raw_event =
  ts :: int
  type :: string
  host :: "string option"
  category :: "string option"
  dwell_ms :: "int option"
  count :: "int option"

text \<open>
  A JavaScript number. Finite values are modelled as reals (rounding of IEEE doubles is
  not modelled); the non-finite results of a division are kept apart, since HOL's own
  \<open>x / 0\<close> is \<open>0\<close> and would hide a missing guard.
\<close>

datatype jsnum = Fin real | NaN | PosInf | NegInf

definition js_div :: "real \<Rightarrow> real \<Rightarrow> jsnum" where
  "js_div x y =
     (if y \<noteq> 0 then Fin (x / y)
      else if x = 0 then NaN
      else if 0 < x then PosInf else NegInf)"

subsection \<open>The SQL fragments the queries use\<close>

definition sql_between :: "int \<Rightarrow> int \<Rightarrow> int \<Rightarrow> bool" where
  \<comment> \<open>\<open>t BETWEEN a AND b\<close>: both bounds belong to the range\<close>
  "sql_between t a b = (a \<le> t \<and> t \<le> b)"

fun non_null :: "'a option list \<Rightarrow> 'a list" where
  "non_null [] = []"
| "non_null (None # vs) = non_null vs"
| "non_null (Some v # vs) = v # non_null vs"

definition sql_sum :: "int option list \<Rightarrow> int option" where
  \<comment> \<open>\<open>SUM(col)\<close>: NULL values are skipped, and the sum of no value is NULL. The sum
      is an unbounded integer: SQLite raises an integer overflow beyond 64 bits, on tables
      outside \<open>within_limits\<close> below\<close>
  "sql_sum vs = (if non_null vs = [] then None else Some (sum_list (non_null vs)))"

definition sql_avg :: "int option list \<Rightarrow> real option" where
  \<comment> \<open>\<open>AVG(col)\<close>: NULL values are skipped, and the average of no value is NULL\<close>
  "sql_avg vs =
     (if non_null vs = [] then None
      else Some (real_of_int (sum_list (non_null vs)) / real (length (non_null vs))))"

definition coalesce0 :: "int option \<Rightarrow> int" where
  \<comment> \<open>\<open>COALESCE(x, 0)\<close>\<close>
  "coalesce0 v = (case v of None \<Rightarrow> 0 | Some x \<Rightarrow> x)"

definition ascii_lower :: "char \<Rightarrow> char" where
  "ascii_lower c =
     (if 65 \<le> (of_char c :: nat) \<and> (of_char c :: nat) \<le> 90
      then char_of ((of_char c :: nat) + 32) else c)"

definition sql_like_search :: "string \<Rightarrow> bool" where
  \<comment> \<open>\<open>category LIKE 'search_%'\<close>: the six letters (LIKE ignores ASCII case), one more
      character, then anything\<close>
  "sql_like_search s = (7 \<le> length s \<and> map ascii_lower (take 6 s) = ''search'')"

subsection \<open>The formatting helpers\<close>

definition js_round :: "real \<Rightarrow> int" where
  \<comment> \<open>\<open>Math.round\<close>: the nearest integer, a half goes up\<close>
  "js_round x = \<lfloor>x + 1 / 2\<rfloor>"

fun toMin :: "jsnum \<Rightarrow> jsnum" where
  \<comment> \<open>\<open>Math.round((ms / 60000) * 100) / 100\<close>, on the exact quotient (the code rounds the
      double, which can fall on the other side of a half in the last digit)\<close>
  "toMin (Fin ms) = Fin (real_of_int (js_round ((ms / 60000) * 100)) / 100)"
| "toMin NaN = NaN"
| "toMin PosInf = PosInf"
| "toMin NegInf = NegInf"

definition safeRatio :: "real \<Rightarrow> real \<Rightarrow> jsnum" where
  "safeRatio num den = (if 0 < den then js_div num den else Fin 0)"

definition toFixed2 :: "real \<Rightarrow> real" where
  \<comment> \<open>\<open>Number(x.toFixed(2))\<close>: two decimals, a half goes away from zero, on the exact
      number (the code rounds the double)\<close>
  "toFixed2 x =
     (if x < 0 then - (real_of_int \<lfloor>- x * 100 + 1 / 2\<rfloor> / 100)
      else real_of_int \<lfloor>x * 100 + 1 / 2\<rfloor> / 100)"

subsection \<open>The queries\<close>

text \<open>
  Every query carries the same window condition \<open>ts BETWEEN @a AND @b\<close>. The parameter
  \<open>localHour\<close> stands for SQLite's
  \<open>strftime('%H', datetime(ts/1000, 'unixepoch', 'localtime'))\<close>, the hour of the day of a
  timestamp in the server's time zone.
\<close>

definition q_dwellTotal :: "raw_event list \<Rightarrow> int \<Rightarrow> int \<Rightarrow> int" where
  "q_dwellTotal db a b =
     coalesce0 (sql_sum (map dwell_ms
       (filter (\<lambda>e. type e = ''dwell'' \<and> sql_between (ts e) a b) db)))"

definition q_late :: "(int \<Rightarrow> nat) \<Rightarrow> raw_event list \<Rightarrow> int \<Rightarrow> int \<Rightarrow> int" where
  "q_late localHour db a b =
     coalesce0 (sql_sum (map dwell_ms
       (filter (\<lambda>e. type e = ''dwell'' \<and> sql_between (ts e) a b \<and> localHour (ts e) \<le> 5) db)))"

definition q_snsEnt :: "raw_event list \<Rightarrow> int \<Rightarrow> int \<Rightarrow> int" where
  "q_snsEnt db a b =
     coalesce0 (sql_sum (map dwell_ms
       (filter (\<lambda>e. type e = ''dwell'' \<and> sql_between (ts e) a b \<and>
                    (category e = Some ''sns'' \<or> category e = Some ''entertainment'')) db)))"

definition q_sessions :: "raw_event list \<Rightarrow> int \<Rightarrow> int \<Rightarrow> int list" where
  "q_sessions db a b =
     non_null (map dwell_ms
       (filter (\<lambda>e. type e = ''dwell'' \<and> sql_between (ts e) a b \<and> dwell_ms e \<noteq> None) db))"

definition q_avgTabCnt :: "raw_event list \<Rightarrow> int \<Rightarrow> int \<Rightarrow> real option" where
  "q_avgTabCnt db a b =
     sql_avg (map count (filter (\<lambda>e. type e = ''tab_count'' \<and> sql_between (ts e) a b) db))"

definition q_searchFreq :: "raw_event list \<Rightarrow> int \<Rightarrow> int \<Rightarrow> nat" where
  "q_searchFreq db a b =
     length (filter (\<lambda>e. type e = ''visit'' \<and> sql_between (ts e) a b \<and>
                          (case category e of None \<Rightarrow> False
                           | Some c \<Rightarrow> c = ''search'' \<or> sql_like_search c)) db)"

definition q_topHosts :: "raw_event list \<Rightarrow> int \<Rightarrow> int \<Rightarrow> int option list" where
  \<comment> \<open>\<open>GROUP BY host ORDER BY ms DESC LIMIT 5\<close>, the column \<open>ms\<close> of the result (the
      only one read). NULL hosts form one group; a NULL sum sorts after every number.\<close>
  "q_topHosts db a b =
     (let rows = filter (\<lambda>e. type e = ''dwell'' \<and> sql_between (ts e) a b) db;
          ms = map (\<lambda>h. sql_sum (map dwell_ms (filter (\<lambda>e. host e = h) rows)))
                   (remdups (map host rows))
      in take 5 (map Some (rev (sort (non_null ms))) @ filter (\<lambda>s. s = None) ms))"

subsection \<open>computeMetrics\<close>

text \<open>
  The function is modelled on the tables on which it returns. On very large tables the
  code can throw, by SQLite's integer overflow in \<open>SUM\<close> or by the RangeError of
  \<open>Math.max(...sessions)\<close> when the session list exceeds the argument limit of the
  engine; \<open>within_limits\<close> below bounds the tables on which neither happens.
\<close>

record feature_row =
  total_usage :: jsnum
  late_night_ratio :: jsnum
  sns_ent_ratio :: jsnum
  session_length_max :: jsnum
  session_length_mean :: jsnum
  bounce_ratio :: jsnum
  avg_tab_cnt :: jsnum
  search_freq :: nat
  repeat_site_ratio :: jsnum

definition computeMetrics :: "(int \<Rightarrow> nat) \<Rightarrow> raw_event list \<Rightarrow> int \<Rightarrow> int \<Rightarrow> feature_row" where
  "computeMetrics localHour db aMs bMs =
     (let dwellTotal = q_dwellTotal db aMs bMs;
          late = q_late localHour db aMs bMs;
          snsEnt = q_snsEnt db aMs bMs;
          sessions = q_sessions db aMs bMs;
          sessionMax = (if sessions \<noteq> [] then Max (set sessions) else 0);
          sessionMean = (if sessions \<noteq> []
                         then js_div (real_of_int (sum_list sessions)) (real (length sessions))
                         else Fin 0);
          shortCnt = length (filter (\<lambda>ms. ms \<le> 10000) sessions);
          bounceRatio = (if sessions \<noteq> []
                         then js_div (real shortCnt) (real (length sessions)) else Fin 0);
          avgTabCnt = (case q_avgTabCnt db aMs bMs of None \<Rightarrow> 0 | Some v \<Rightarrow> v);
          searchFreq = q_searchFreq db aMs bMs;
          topHosts = q_topHosts db aMs bMs;
          topMs = fold (\<lambda>row sum. sum + coalesce0 row) topHosts 0;
          repeatSiteRatio = (if 0 < dwellTotal
                             then js_div (real_of_int topMs) (real_of_int dwellTotal) else Fin 0)
      in \<lparr> total_usage = toMin (Fin (real_of_int dwellTotal)),
           late_night_ratio = safeRatio (real_of_int late) (real_of_int dwellTotal),
           sns_ent_ratio = safeRatio (real_of_int snsEnt) (real_of_int dwellTotal),
           session_length_max = toMin (Fin (real_of_int sessionMax)),
           session_length_mean = toMin sessionMean,
           bounce_ratio = bounceRatio,
           avg_tab_cnt = Fin (toFixed2 avgTabCnt),
           search_freq = searchFreq,
           repeat_site_ratio = repeatSiteRatio \<rparr>)"

text \<open>
  A sample \<open>localHour\<close>: the hour of the day on a server whose time zone is UTC
  (SQLite's integer division \<open>ts/1000\<close> truncates towards zero), for the timestamps of
  the years 0000 to 9999, which SQLite's \<open>datetime\<close> covers.
\<close>

definition utcHour :: "int \<Rightarrow> nat" where
  "utcHour t = nat (((if t < 0 then - ((- t) div 1000) else t div 1000) div 3600) mod 24)"

definition ex_dwell :: "int \<Rightarrow> int \<Rightarrow> raw_event" where
  \<comment> \<open>a sample dwell event at time \<open>t\<close> that lasted \<open>ms\<close> milliseconds\<close>
  "ex_dwell t ms = \<lparr> ts = t, type = ''dwell'', host = Some ''example.com'',
     category = Some ''other'', dwell_ms = Some ms, count = None \<rparr>"

definition ex_sns :: "int \<Rightarrow> int \<Rightarrow> raw_event" where
  \<comment> \<open>a sample dwell event on a social network\<close>
  "ex_sns t ms = \<lparr> ts = t, type = ''dwell'', host = Some ''sns.example.com'',
     category = Some ''sns'', dwell_ms = Some ms, count = None \<rparr>"

definition ex_visit :: "int \<Rightarrow> raw_event" where
  \<comment> \<open>a sample visit event at time \<open>t\<close>\<close>
  "ex_visit t = \<lparr> ts = t, type = ''visit'', host = Some ''example.com'',
     category = Some ''search_web'', dwell_ms = None, count = None \<rparr>"

section \<open>FeatureValidator and FeaturePreprocessor: class DataProcessor
  (machine_learning/DataProcessor)\<close>

subsection \<open>Data frames\<close>

text \<open>
  A cell of a pandas DataFrame: a string of an object column, a float (\<open>Float None\<close> is
  NaN), a timestamp (\<open>Stamp None\<close> is NaT) or a nullable integer of dtype Int64
  (\<open>Int64 None\<close> is \<open><NA>\<close>). Floats are modelled as reals. A DataFrame is the list of its
  columns in order, each a name and its cells; its index is the default one, the row
  positions \<open>0, 1, ...\<close>, as \<open>pd.read_csv\<close> builds it.
\<close>

datatype cell = Str string | Float "real option" | Stamp "int option" | Int64 "int option"

type_synonym dataframe = "(string \<times> cell list) list"

definition columns :: "dataframe \<Rightarrow> string list" where
  "columns d = map fst d"

definition len :: "dataframe \<Rightarrow> nat" where
  \<comment> \<open>\<open>len(df)\<close>, the number of rows\<close>
  "len d = (case d of [] \<Rightarrow> 0 | (c, vs) # _ \<Rightarrow> length vs)"

definition row_index :: "dataframe \<Rightarrow> nat list" where
  \<comment> \<open>\<open>df.index\<close>\<close>
  "row_index d = [0..<len d]"

definition series :: "dataframe \<Rightarrow> string \<Rightarrow> cell list" where
  \<comment> \<open>\<open>df[c]\<close>; every use is guarded by \<open>c in df.columns\<close>\<close>
  "series d c = (case map_of d c of None \<Rightarrow> [] | Some vs \<Rightarrow> vs)"

definition assign :: "string \<Rightarrow> cell list \<Rightarrow> dataframe \<Rightarrow> dataframe" where
  \<comment> \<open>\<open>df[c] = vs\<close>: replaces the column where it stands, or appends a new one\<close>
  "assign c vs d = AList.update c vs d"

definition loc :: "dataframe \<Rightarrow> nat \<Rightarrow> string \<Rightarrow> cell" where
  \<comment> \<open>\<open>df.loc[idx, c]\<close>\<close>
  "loc d idx c = series d c ! idx"

definition df_empty :: "dataframe \<Rightarrow> bool" where
  \<comment> \<open>\<open>df.empty\<close>: no column or no row\<close>
  "df_empty d = (d = [] \<or> len d = 0)"

fun num :: "cell \<Rightarrow> real option" where
  \<comment> \<open>the number a cell holds, \<open>None\<close> when the cell is missing\<close>
  "num (Float x) = x"
| "num (Int64 i) = map_option real_of_int i"
| "num (Stamp t) = map_option real_of_int t"
| "num (Str s) = None"

fun notna :: "cell \<Rightarrow> bool" where
  "notna (Float x) = (x \<noteq> None)"
| "notna (Int64 i) = (i \<noteq> None)"
| "notna (Stamp t) = (t \<noteq> None)"
| "notna (Str s) = True"

definition cell_lt :: "cell \<Rightarrow> cell \<Rightarrow> bool" where
  \<comment> \<open>an element of \<open>series_a < series_b\<close>: false when either side is missing\<close>
  "cell_lt x y = (case (num x, num y) of (Some u, Some v) \<Rightarrow> u < v | _ \<Rightarrow> False)"

definition cell_lt_const :: "cell \<Rightarrow> real \<Rightarrow> bool" where
  "cell_lt_const x k = (case num x of Some u \<Rightarrow> u < k | None \<Rightarrow> False)"

definition cell_gt_const :: "cell \<Rightarrow> real \<Rightarrow> bool" where
  "cell_gt_const x k = (case num x of Some u \<Rightarrow> k < u | None \<Rightarrow> False)"

definition dropna :: "cell list \<Rightarrow> real list" where
  \<comment> \<open>the numbers of a numeric column, missing cells left out\<close>
  "dropna vs = non_null (map num vs)"

subsection \<open>The schema\<close>

definition REQUIRED_COLUMNS :: "string list" where
  "REQUIRED_COLUMNS = [''period_start'', ''period_end'', ''session_length_max'',
     ''session_length_mean'', ''avg_tab_cnt'', ''search_freq'', ''ad_click_rate'']"

definition NUMERIC_COLUMNS :: "string list" where
  "NUMERIC_COLUMNS = [''session_length_max'', ''session_length_mean'', ''avg_tab_cnt'',
     ''search_freq'']"

definition RATIO_COLUMNS :: "string list" where
  "RATIO_COLUMNS = [''ad_click_rate'']"

definition INTEGER_COLUMNS :: "string list" where
  "INTEGER_COLUMNS = [''avg_tab_cnt'', ''search_freq'']"

subsection \<open>Errors, reports and the state of a DataProcessor\<close>

datatype message = MissingColumns "string list" | ValidationFailed nat | NotFitted

datatype value_error = EmptyInput | ConfigRequired | LengthMismatch | NoSamples

datatype error =
    DataProcessingError message
  | FeatureValidationError
  | ValueError value_error
  | TypeError

datatype failure_value = Dates cell cell | Cell cell | NotApplicable

record failure =
  index :: nat
  column :: string
  reason :: string
  val :: failure_value

datatype report_value = Text string | Number nat | Names "string list"

datatype log_entry =
    FilledMedian string nat "real option"
  | FilledRatio string nat
  | Capped string nat real real
  | Scaled "string list"

record StandardScaler =
  means :: "real option list"
  scales :: "real option list"

text \<open>
  The object: \<open>self.df\<close>, \<open>self._scaler\<close>, the two entries of \<open>self._report\<close>, and the file
  \<open>validation_failures.csv\<close> that validation writes (\<open>None\<close> while it has not been
  written).
\<close>

record DataProcessor =
  self_df :: dataframe
  self_scaler :: "StandardScaler option"
  self_report_validation :: "string \<rightharpoonup> report_value"
  self_report_preprocessing_log :: "log_entry list"
  validation_failures_csv :: "failure list option"

definition init :: "dataframe \<Rightarrow> DataProcessor" where
  \<comment> \<open>\<open>__init__\<close>; no file has been written yet\<close>
  "init d =
     \<lparr> self_df = d, self_scaler = None, self_report_validation = Map.empty,
       self_report_preprocessing_log = [], validation_failures_csv = None \<rparr>"

subsection \<open>Validation: \<open>_validate_data\<close>\<close>

text \<open>
  \<open>pd.to_numeric(..., errors="coerce")\<close> and \<open>pd.to_datetime(..., errors="coerce")\<close> are
  library code: the development is parametric in what they make of one cell
  (\<open>to_numeric\<close>, \<open>to_datetime\<close>; \<open>None\<close> is NaN, respectively NaT).
\<close>

record validation =
  \<comment> \<open>the local variables \<open>df\<close>, \<open>problems\<close> and \<open>failure_rows\<close>\<close>
  frame :: dataframe
  problems :: nat
  failure_rows :: "failure list"

definition missing_cols :: "dataframe \<Rightarrow> string list" where
  "missing_cols d = filter (\<lambda>c. c \<notin> set (columns d)) REQUIRED_COLUMNS"

definition coerce_numeric :: "(cell \<Rightarrow> real option) \<Rightarrow> dataframe \<Rightarrow> dataframe" where
  \<comment> \<open>step 1-2\<close>
  "coerce_numeric to_numeric d =
     fold (\<lambda>c d'. if c \<in> set (columns d') then assign c (map (\<lambda>x. Float (to_numeric x)) (series d' c)) d'
                   else d')
          (NUMERIC_COLUMNS @ RATIO_COLUMNS) d"

definition coerce_dates :: "(cell \<Rightarrow> int option) \<Rightarrow> dataframe \<Rightarrow> dataframe" where
  \<comment> \<open>step 1-3, the conversion\<close>
  "coerce_dates to_datetime d =
     fold (\<lambda>c d'. if c \<in> set (columns d') then assign c (map (\<lambda>x. Stamp (to_datetime x)) (series d' c)) d'
                   else d')
          [''period_start'', ''period_end''] d"

definition report_rows :: "nat list \<Rightarrow> (nat \<Rightarrow> failure) \<Rightarrow> validation \<Rightarrow> validation" where
  \<comment> \<open>\<open>if not rows.empty: problems += len(rows); for idx in rows.index: failure_rows.append(...)\<close>\<close>
  "report_rows rows entry v =
     (if rows \<noteq> [] then
        v\<lparr> problems := problems v + length rows,
           failure_rows := failure_rows v @ map entry rows \<rparr>
      else v)"

definition invalid_dates :: "dataframe \<Rightarrow> nat list" where
  \<comment> \<open>the index of the rows with both dates present and \<open>period_end < period_start\<close>\<close>
  "invalid_dates d =
     filter (\<lambda>i. notna (loc d i ''period_start'') \<and> notna (loc d i ''period_end'') \<and>
                  cell_lt (loc d i ''period_end'') (loc d i ''period_start''))
            (row_index d)"

definition date_failure :: "dataframe \<Rightarrow> nat \<Rightarrow> failure" where
  "date_failure d idx =
     \<lparr> index = idx, column = ''period_start/period_end'', reason = ''end_before_start'',
       val = Dates (loc d idx ''period_start'') (loc d idx ''period_end'') \<rparr>"

definition check_dates :: "validation \<Rightarrow> validation" where
  \<comment> \<open>step 1-3, the check\<close>
  "check_dates v =
     (let d = frame v in
      if ''period_start'' \<in> set (columns d) \<and> ''period_end'' \<in> set (columns d)
      then report_rows (invalid_dates d) (date_failure d) v
      else v)"

definition out_of_bounds :: "string \<Rightarrow> dataframe \<Rightarrow> nat list" where
  \<comment> \<open>the index of the rows whose value in column \<open>c\<close> is present and below 0 or above 1\<close>
  "out_of_bounds c d =
     filter (\<lambda>i. notna (loc d i c) \<and> (cell_lt_const (loc d i c) 0 \<or> cell_gt_const (loc d i c) 1))
            (row_index d)"

definition ratio_failure :: "dataframe \<Rightarrow> string \<Rightarrow> nat \<Rightarrow> failure" where
  "ratio_failure d c idx =
     \<lparr> index = idx, column = c, reason = ''ratio_out_of_bounds'', val = Cell (loc d idx c) \<rparr>"

definition check_ratio :: "string \<Rightarrow> validation \<Rightarrow> validation" where
  \<comment> \<open>step 1-4, the body of the loop\<close>
  "check_ratio c v =
     (let d = frame v in
      if c \<in> set (columns d) then report_rows (out_of_bounds c d) (ratio_failure d c) v else v)"

definition illogical :: "dataframe \<Rightarrow> nat list" where
  \<comment> \<open>the index of the rows with both session lengths present and the maximum below the
      mean\<close>
  "illogical d =
     filter (\<lambda>i. notna (loc d i ''session_length_max'') \<and>
                  notna (loc d i ''session_length_mean'') \<and>
                  cell_lt (loc d i ''session_length_max'') (loc d i ''session_length_mean''))
            (row_index d)"

definition max_mean_failure :: "nat \<Rightarrow> failure" where
  "max_mean_failure idx =
     \<lparr> index = idx, column = ''session_length_max/mean'', reason = ''max_less_than_mean'',
       val = NotApplicable \<rparr>"

definition check_max_mean :: "validation \<Rightarrow> validation" where
  \<comment> \<open>step 1-5\<close>
  "check_max_mean v =
     (let d = frame v in
      if ''session_length_max'' \<in> set (columns d) \<and> ''session_length_mean'' \<in> set (columns d)
      then report_rows (illogical d) max_mean_failure v
      else v)"

definition non_integer :: "cell \<Rightarrow> bool" where
  \<comment> \<open>\<open>(x.astype(float) % 1) != 0\<close>\<close>
  "non_integer x = (case num x of Some u \<Rightarrow> frac u \<noteq> 0 | None \<Rightarrow> False)"

definition non_integers :: "string \<Rightarrow> dataframe \<Rightarrow> nat list" where
  \<comment> \<open>the index of the rows whose value in column \<open>c\<close> is present and has a fractional part\<close>
  "non_integers c d = filter (\<lambda>i. notna (loc d i c) \<and> non_integer (loc d i c)) (row_index d)"

definition integer_failure :: "dataframe \<Rightarrow> string \<Rightarrow> nat \<Rightarrow> failure" where
  "integer_failure d c idx =
     \<lparr> index = idx, column = c, reason = ''non_integer_value'', val = Cell (loc d idx c) \<rparr>"

definition check_integer :: "string \<Rightarrow> validation \<Rightarrow> validation" where
  \<comment> \<open>step 1-6, the body of the loop\<close>
  "check_integer c v =
     (let d = frame v in
      if c \<in> set (columns d) then report_rows (non_integers c d) (integer_failure d c) v else v)"

definition coerced :: "(cell \<Rightarrow> real option) \<Rightarrow> (cell \<Rightarrow> int option) \<Rightarrow> dataframe \<Rightarrow> dataframe" where
  \<comment> \<open>the frame after steps 1-2 and 1-3, on which every check works\<close>
  "coerced to_numeric to_datetime d = coerce_dates to_datetime (coerce_numeric to_numeric d)"

definition fresh :: "dataframe \<Rightarrow> validation" where
  \<comment> \<open>\<open>problems = 0\<close> and \<open>failure_rows = []\<close>\<close>
  "fresh d = \<lparr> frame = d, problems = 0, failure_rows = [] \<rparr>"

definition run_checks :: "(cell \<Rightarrow> real option) \<Rightarrow> (cell \<Rightarrow> int option) \<Rightarrow> dataframe \<Rightarrow> validation" where
  \<comment> \<open>steps 1-2 to 1-6 in order, from \<open>problems = 0\<close> and \<open>failure_rows = []\<close>\<close>
  "run_checks to_numeric to_datetime d =
     fold check_integer INTEGER_COLUMNS
       (check_max_mean
         (fold check_ratio RATIO_COLUMNS
           (check_dates (fresh (coerced to_numeric to_datetime d)))))"

definition validate_data ::
  "(cell \<Rightarrow> real option) \<Rightarrow> (cell \<Rightarrow> int option) \<Rightarrow> dataframe \<Rightarrow> DataProcessor
     \<Rightarrow> (error + dataframe) \<times> DataProcessor" where
  "validate_data to_numeric to_datetime d self =
     (if missing_cols d \<noteq> [] then
        (Inl (DataProcessingError (MissingColumns (missing_cols d))),
         self\<lparr> self_report_validation :=
                 (self_report_validation self)(''missing_columns'' \<mapsto> Names (missing_cols d)) \<rparr>)
      else
        let v = run_checks to_numeric to_datetime d in
        if 0 < problems v then
          (Inl (DataProcessingError (ValidationFailed (problems v))),
           self\<lparr> validation_failures_csv := Some (failure_rows v) \<rparr>)
        else
          (Inr (frame v),
           self\<lparr> self_report_validation :=
                   [''status'' \<mapsto> Text ''pass'', ''problems'' \<mapsto> Number 0,
                    ''failure_rows'' \<mapsto> Number 0] \<rparr>))"

subsection \<open>Cleaning: \<open>_preprocess_data\<close>\<close>

definition median :: "real list \<Rightarrow> real option" where
  \<comment> \<open>\<open>Series.median(skipna=True)\<close> of the values that are not missing; NaN when there is none\<close>
  "median xs =
     (if xs = [] then None
      else let s = sort xs; n = length s in
        Some (if odd n then s ! (n div 2) else (s ! (n div 2 - 1) + s ! (n div 2)) / 2))"

definition quantile :: "real \<Rightarrow> real list \<Rightarrow> real" where
  \<comment> \<open>\<open>Series.quantile(q)\<close>, linear interpolation between the two nearest ranks; only
      called on eight values or more\<close>
  "quantile q xs =
     (let s = sort xs; pos = q * real (length s - 1); lo = nat \<lfloor>pos\<rfloor> in
      if lo + 1 < length s then s ! lo + (pos - real lo) * (s ! (lo + 1) - s ! lo) else s ! lo)"

definition round_half_even :: "real \<Rightarrow> int" where
  \<comment> \<open>\<open>Series.round()\<close>: the nearest integer, a half goes to the even neighbour\<close>
  "round_half_even x =
     (if frac x < 1 / 2 then \<lfloor>x\<rfloor>
      else if 1 / 2 < frac x then \<lfloor>x\<rfloor> + 1
      else if even \<lfloor>x\<rfloor> then \<lfloor>x\<rfloor> else \<lfloor>x\<rfloor> + 1)"

definition fillna :: "real option \<Rightarrow> real option \<Rightarrow> real option" where
  "fillna x v = (case x of None \<Rightarrow> v | Some u \<Rightarrow> Some u)"

definition clip :: "real \<Rightarrow> real \<Rightarrow> real \<Rightarrow> real" where
  "clip lower upper x = min upper (max lower x)"

definition append_log :: "log_entry \<Rightarrow> DataProcessor \<Rightarrow> DataProcessor" where
  \<comment> \<open>\<open>self._report['preprocessing_log'].append(entry)\<close>\<close>
  "append_log entry self =
     self\<lparr> self_report_preprocessing_log := self_report_preprocessing_log self @ [entry] \<rparr>"

definition fill_numeric :: "string \<Rightarrow> dataframe \<times> DataProcessor \<Rightarrow> dataframe \<times> DataProcessor" where
  \<comment> \<open>step 2-1, the body of the loop over \<open>NUMERIC_COLUMNS\<close>\<close>
  "fill_numeric c = (\<lambda>(d, self).
     if c \<in> set (columns d) then
       let med = median (dropna (series d c));
           na_count = length (filter (\<lambda>x. \<not> notna x) (series d c))
       in (if c \<in> set INTEGER_COLUMNS
           then assign c (map (\<lambda>x. Int64 (map_option round_half_even (fillna (num x) med)))
                              (series d c)) d
           else assign c (map (\<lambda>x. Float (fillna (num x) med)) (series d c)) d,
           append_log (FilledMedian c na_count med) self)
     else (d, self))"

definition fill_ratio :: "string \<Rightarrow> dataframe \<times> DataProcessor \<Rightarrow> dataframe \<times> DataProcessor" where
  \<comment> \<open>step 2-1, the body of the loop over \<open>RATIO_COLUMNS\<close>\<close>
  "fill_ratio c = (\<lambda>(d, self).
     if c \<in> set (columns d) then
       let na_count = length (filter (\<lambda>x. \<not> notna x) (series d c))
       in (assign c (map (\<lambda>x. Float (Some (clip 0 1 (case fillna (num x) (Some 0) of
                                                        Some u \<Rightarrow> u | None \<Rightarrow> 0))))
                         (series d c)) d,
           append_log (FilledRatio c na_count) self)
     else (d, self))"

definition int64_dtype :: "cell list \<Rightarrow> bool" where
  \<comment> \<open>whether a column is of dtype Int64\<close>
  "int64_dtype vs = (case vs of Int64 i # _ \<Rightarrow> True | _ \<Rightarrow> False)"

definition loc_assign :: "nat list \<Rightarrow> real \<Rightarrow> cell list \<Rightarrow> error + cell list" where
  \<comment> \<open>\<open>df.loc[rows, c] = x\<close> for a float \<open>x\<close>. An Int64 column takes a float only when it
      is integral and raises TypeError otherwise; a float column takes it as it is.\<close>
  "loc_assign rows x vs =
     (if int64_dtype vs then
        (if frac x \<noteq> 0 then Inl TypeError
         else Inr (fold (\<lambda>i ws. ws[i := Int64 (Some \<lfloor>x\<rfloor>)]) rows vs))
      else Inr (fold (\<lambda>i ws. ws[i := Float (Some x)]) rows vs))"

definition cap_outliers ::
  "string \<Rightarrow> dataframe \<times> DataProcessor \<Rightarrow> (error + dataframe) \<times> DataProcessor" where
  \<comment> \<open>step 2-2, the body of the loop over \<open>NUMERIC_COLUMNS\<close>\<close>
  "cap_outliers c = (\<lambda>(d, self).
     if c \<in> set (columns d) then
       let col = dropna (series d c) in
       if 8 \<le> length col then
         let Q1 = quantile (1 / 4) col; Q3 = quantile (3 / 4) col; IQR = Q3 - Q1 in
         if 0 < IQR then
           let lower_bound = Q1 - 3 / 2 * IQR; upper_bound = Q3 + 3 / 2 * IQR;
               mask_lo = filter (\<lambda>i. cell_lt_const (loc d i c) lower_bound) (row_index d);
               mask_hi = filter (\<lambda>i. cell_gt_const (loc d i c) upper_bound) (row_index d);
               outlier_count = length mask_lo + length mask_hi
           in if 0 < outlier_count then
                (case loc_assign mask_lo lower_bound (series d c) of
                   Inl e \<Rightarrow> (Inl e, self)
                 | Inr vs \<Rightarrow>
                     (case loc_assign mask_hi upper_bound vs of
                        Inl e \<Rightarrow> (Inl e, self)
                      | Inr ws \<Rightarrow>
                          (Inr (assign c ws d),
                           append_log (Capped c outlier_count lower_bound upper_bound) self)))
              else (Inr d, self)
         else (Inr d, self)
       else (Inr d, self)
     else (Inr d, self))"

fun fold_raising ::
  "('a \<Rightarrow> dataframe \<times> DataProcessor \<Rightarrow> (error + dataframe) \<times> DataProcessor) \<Rightarrow> 'a list
     \<Rightarrow> dataframe \<times> DataProcessor \<Rightarrow> (error + dataframe) \<times> DataProcessor" where
  \<comment> \<open>a \<open>for\<close> loop whose body may raise: the first exception ends it\<close>
  "fold_raising f [] (d, self) = (Inr d, self)"
| "fold_raising f (c # cs) (d, self) =
     (case f c (d, self) of
        (Inl e, self') \<Rightarrow> (Inl e, self')
      | (Inr d', self') \<Rightarrow> fold_raising f cs (d', self'))"

definition preprocess_data :: "dataframe \<Rightarrow> DataProcessor \<Rightarrow> (error + dataframe) \<times> DataProcessor" where
  "preprocess_data d self =
     fold_raising cap_outliers NUMERIC_COLUMNS
       (fold fill_ratio RATIO_COLUMNS (fold fill_numeric NUMERIC_COLUMNS (d, self)))"

subsection \<open>Scaling: \<open>fit_transform\<close> and \<open>transform\<close>\<close>

text \<open>
  scikit-learn's \<open>StandardScaler\<close>: per column the mean and the population standard
  deviation of the values that are not missing, a standard deviation of zero replaced
  by one; a missing value stays missing. Both \<open>fit_transform\<close> and \<open>transform\<close> of the
  scaler check their input first and refuse an array without rows.
\<close>

definition check_array :: "dataframe \<Rightarrow> error + dataframe" where
  \<comment> \<open>the input check of the scaler on \<open>df[cols_to_scale]\<close>, which has the rows of \<open>df\<close>:
      ValueError ("Found array with 0 sample(s)") when there is no row\<close>
  "check_array X = (if len X = 0 then Inl (ValueError NoSamples) else Inr X)"

definition fit_column :: "real list \<Rightarrow> real option \<times> real option" where
  \<comment> \<open>the mean and the scale of one column, from its numbers \<open>xs\<close>; for a column whose
      cells are all missing both are NaN\<close>
  "fit_column xs =
     (if xs = [] then (None, None)
      else let n = real (length xs);
               m = sum_list xs / n;
               s = sqrt (sum_list (map (\<lambda>x. (x - m)\<^sup>2) xs) / n)
           in (Some m, Some (if s = 0 then 1 else s)))"

definition scaler_fit :: "string list \<Rightarrow> dataframe \<Rightarrow> StandardScaler" where
  "scaler_fit cols d =
     \<lparr> means = map (\<lambda>c. fst (fit_column (dropna (series d c)))) cols,
       scales = map (\<lambda>c. snd (fit_column (dropna (series d c)))) cols \<rparr>"

definition scale_cell :: "real option \<Rightarrow> real option \<Rightarrow> cell \<Rightarrow> cell" where
  "scale_cell m s x =
     Float (case (m, s, num x) of (Some m', Some s', Some u) \<Rightarrow> Some ((u - m') / s') | _ \<Rightarrow> None)"

definition scaler_transform :: "StandardScaler \<Rightarrow> string list \<Rightarrow> dataframe \<Rightarrow> dataframe" where
  \<comment> \<open>\<open>df[cols] = scaler.transform(df[cols])\<close>\<close>
  "scaler_transform sc cols d =
     fold (\<lambda>(c, m, s) d'. assign c (map (scale_cell m s) (series d c)) d')
          (zip cols (zip (means sc) (scales sc))) d"

record meta =
  \<comment> \<open>the dictionary \<open>fit_transform\<close> returns beside the frame\<close>
  meta_validation :: "string \<rightharpoonup> report_value"
  meta_preprocessing_log :: "log_entry list"
  scaled_columns :: "string list option"
  scaler :: "StandardScaler option"

definition report :: "DataProcessor \<Rightarrow> meta" where
  \<comment> \<open>\<open>self._report\<close> as a result: no \<open>scaled_columns\<close> and no \<open>scaler\<close> entry\<close>
  "report self =
     \<lparr> meta_validation = self_report_validation self,
       meta_preprocessing_log = self_report_preprocessing_log self,
       scaled_columns = None, scaler = None \<rparr>"

definition fit_transform_try ::
  "(cell \<Rightarrow> real option) \<Rightarrow> (cell \<Rightarrow> int option) \<Rightarrow> DataProcessor
     \<Rightarrow> (error + dataframe \<times> meta) \<times> DataProcessor" where
  \<comment> \<open>the \<open>try\<close> block of \<open>fit_transform\<close>\<close>
  "fit_transform_try to_numeric to_datetime self =
     (case validate_data to_numeric to_datetime (self_df self) self of
        (Inl e, self1) \<Rightarrow> (Inl e, self1)
      | (Inr df_validated, self1) \<Rightarrow>
          (case preprocess_data df_validated self1 of
             (Inl e, self2) \<Rightarrow> (Inl e, self2)
           | (Inr df_processed, self2) \<Rightarrow>
               let cols_to_scale = filter (\<lambda>c. c \<in> set (columns df_processed))
                                          (NUMERIC_COLUMNS @ RATIO_COLUMNS)
               in (case (if cols_to_scale \<noteq> [] then check_array df_processed
                         else Inr df_processed) of
                     Inl e \<Rightarrow> (Inl e, self2)
                   | Inr X \<Rightarrow>
                       let sc = (if cols_to_scale \<noteq> [] then scaler_fit cols_to_scale X
                                 else \<lparr> means = [], scales = [] \<rparr>);
                           df_scaled = (if cols_to_scale \<noteq> []
                                        then scaler_transform sc cols_to_scale X
                                        else df_processed);
                           self3 = append_log (Scaled cols_to_scale)
                                     (self2\<lparr> self_scaler := Some sc \<rparr>)
                       in (Inr (df_scaled,
                                (report self3)\<lparr> scaled_columns := Some cols_to_scale,
                                                scaler := Some sc \<rparr>),
                           self3))))"

definition fit_transform ::
  "(cell \<Rightarrow> real option) \<Rightarrow> (cell \<Rightarrow> int option) \<Rightarrow> DataProcessor
     \<Rightarrow> (error + dataframe \<times> meta) \<times> DataProcessor" where
  \<comment> \<open>\<open>except DataProcessingError\<close>: the error is printed, and an empty frame and
      \<open>self._report\<close> are returned; any other exception (the TypeError of pandas, the
      ValueError of the scaler) goes on to the caller\<close>
  "fit_transform to_numeric to_datetime self =
     (case fit_transform_try to_numeric to_datetime self of
        (Inl (DataProcessingError e), self') \<Rightarrow> (Inr ([], report self'), self')
      | r \<Rightarrow> r)"

definition transform ::
  "(cell \<Rightarrow> real option) \<Rightarrow> (cell \<Rightarrow> int option) \<Rightarrow> DataProcessor \<Rightarrow> dataframe
     \<Rightarrow> (error + dataframe) \<times> DataProcessor" where
  "transform to_numeric to_datetime self d =
     (case self_scaler self of
        None \<Rightarrow> (Inl (DataProcessingError NotFitted), self)
      | Some sc \<Rightarrow>
          (case validate_data to_numeric to_datetime d self of
             (Inl e, self1) \<Rightarrow> (Inl e, self1)
           | (Inr df_new_validated, self1) \<Rightarrow>
               (case preprocess_data df_new_validated self1 of
                  (Inl e, self2) \<Rightarrow> (Inl e, self2)
                | (Inr df_new_processed, self2) \<Rightarrow>
                    let cols_to_scale = filter (\<lambda>c. c \<in> set (columns df_new_processed))
                                               (NUMERIC_COLUMNS @ RATIO_COLUMNS)
                    in (case (if cols_to_scale \<noteq> [] then check_array df_new_processed
                              else Inr df_new_processed) of
                          Inl e \<Rightarrow> (Inl e, self2)
                        | Inr X \<Rightarrow>
                            (Inr (if cols_to_scale \<noteq> []
                                  then scaler_transform sc cols_to_scale X
                                  else df_new_processed),
                             self2)))))"

section \<open>InferenceEngine: predict_dataframe (Machine_Learning/predict_pipeline)\<close>

text \<open>
  The classifier is an object of scikit-learn: the model records which of the methods
  that \<open>hasattr\<close> looks for it has (\<open>predict\<close> is always there). \<open>predict_proba\<close> stands
  for \<open>model.predict_proba(X)[:, 1]\<close>, one probability per row.
\<close>

record 'x classifier =
  predict_proba :: "('x \<Rightarrow> real list) option"
  decision_function :: "('x \<Rightarrow> real list) option"
  predict :: "'x \<Rightarrow> int list"

text \<open>
  The three artifacts of a training run as \<open>artifacts_dir\<close> holds them: \<open>model.pkl\<close>,
  \<open>processor.pkl\<close> (an object with a \<open>transform\<close> method that may raise) and the value of
  \<open>threshold.json\<close>, \<open>None\<close> when the file holds none.
\<close>

record 'x artifacts =
  model :: "'x classifier"
  processor :: "dataframe \<Rightarrow> error + 'x"
  threshold :: "real option"

definition load_model_processor :: "'x artifacts \<Rightarrow> 'x classifier \<times> (dataframe \<Rightarrow> error + 'x)" where
  \<comment> \<open>Modelled from the spec: \<open>load_model_processor\<close> of the module \<open>artifacts\<close>, which is
      not among the sources; it hands out the fitted classifier and the fitted
      preprocessor of the artifacts.\<close>
  "load_model_processor art = (model art, processor art)"

definition load_threshold :: "'x artifacts \<Rightarrow> real \<Rightarrow> real" where
  \<comment> \<open>Modelled from the spec: \<open>load_threshold\<close> of the module \<open>artifacts\<close>, which is not
      among the sources; the decision threshold of the artifacts, the default when absent.\<close>
  "load_threshold art dflt = (case threshold art of None \<Rightarrow> dflt | Some t \<Rightarrow> t)"

definition risk_flag :: "real \<Rightarrow> real \<Rightarrow> int" where
  \<comment> \<open>an element of \<open>(proba >= thr).astype(int)\<close>\<close>
  "risk_flag thr p = (if thr \<le> p then 1 else 0)"

text \<open>
  \<open>validate_features\<close> stands for \<open>DataValidator(df, config).validate_features()\<close> of the
  module \<open>feature_validation\<close>, which is not among the sources: it returns the report (of
  which only the entry \<open>problems\<close> is read, \<open>None\<close> when the report has none), the validated
  frame and whether validation passed.
\<close>

definition revalidate ::
  "(dataframe \<Rightarrow> 'c \<Rightarrow> nat option \<times> dataframe \<times> bool) \<Rightarrow> dataframe \<Rightarrow> bool \<Rightarrow> 'c option
     \<Rightarrow> error + dataframe" where
  \<comment> \<open>step 0, the optional validation: the frame that the later steps work on\<close>
  "revalidate validate_features d do_validate validation_config =
     (if do_validate then
        (case validation_config of
           None \<Rightarrow> Inl (ValueError ConfigRequired)
         | Some config \<Rightarrow>
             (case validate_features d config of
                (report_problems, df_valid, passed) \<Rightarrow>
                  if \<not> passed \<or> 0 < (case report_problems of None \<Rightarrow> 0 | Some n \<Rightarrow> n)
                  then Inl FeatureValidationError
                  else Inr df_valid))
      else Inr d)"

definition predict_probability :: "'x classifier \<Rightarrow> 'x \<Rightarrow> real list" where
  \<comment> \<open>step 3: the probabilities, from the best method the classifier has\<close>
  "predict_probability m X =
     (case predict_proba m of
        Some f \<Rightarrow> f X
      | None \<Rightarrow>
          (case decision_function m of
             Some g \<Rightarrow> map (\<lambda>score. 1 / (1 + exp (- score))) (g X)
           | None \<Rightarrow> map real_of_int (predict m X)))"

definition predict_dataframe ::
  "(dataframe \<Rightarrow> 'c \<Rightarrow> nat option \<times> dataframe \<times> bool) \<Rightarrow> dataframe \<Rightarrow> 'x artifacts \<Rightarrow> bool
     \<Rightarrow> 'c option \<Rightarrow> error + dataframe" where
  \<comment> \<open>assigning a column of another length than the frame raises ValueError\<close>
  "predict_dataframe validate_features d artifacts_dir do_validate validation_config =
     (if df_empty d then Inl (ValueError EmptyInput)
      else
        case revalidate validate_features d do_validate validation_config of
          Inl e \<Rightarrow> Inl e
        | Inr d' \<Rightarrow>
            (case load_model_processor artifacts_dir of
               (m, p) \<Rightarrow>
                 let thr = load_threshold artifacts_dir (1 / 2) in
                 case p d' of
                   Inl e \<Rightarrow> Inl e
                 | Inr X \<Rightarrow>
                     let proba = predict_probability m X;
                         flag = map (risk_flag thr) proba
                     in if length proba \<noteq> len d' then Inl (ValueError LengthMismatch)
                        else Inr (assign ''risk_flag'' (map (\<lambda>f. Int64 (Some f)) flag)
                                   (assign ''risk_proba'' (map (\<lambda>q. Float (Some q)) proba) d'))))"

section \<open>Orders, predicates and sample inputs that the statements use\<close>

definition within_limits :: "raw_event list \<Rightarrow> bool" where
  \<comment> \<open>the events of a window on which the call is sure to return: fewer than 65,536 of
      them, so that the argument list of \<open>Math.max(...sessions)\<close> is one the engine takes,
      and dwell times below 2^31 ms, so that every \<open>SUM(dwell_ms)\<close> stays within SQLite's
      64-bit integers and within the integers that a JavaScript number holds exactly\<close>
  "within_limits es =
     (length es < 65536 \<and>
      list_all (\<lambda>e. case dwell_ms e of None \<Rightarrow> True | Some m \<Rightarrow> \<bar>m\<bar> < 2147483648) es)"

definition check_order :: "string list" where
  \<comment> \<open>the column labels of the failure rows, in the order in which the checks run\<close>
  "check_order =
     ''period_start/period_end'' # RATIO_COLUMNS @ ''session_length_max/mean'' # INTEGER_COLUMNS"

definition check_rank :: "string \<Rightarrow> nat" where
  "check_rank c = length (takeWhile (\<lambda>x. x \<noteq> c) check_order)"

definition failure_order :: "failure \<Rightarrow> failure \<Rightarrow> bool" where
  \<comment> \<open>by check first, by row index within a check\<close>
  "failure_order f g =
     (check_rank (column f) < check_rank (column g)
      \<or> (check_rank (column f) = check_rank (column g) \<and> index f < index g))"

definition row_problem :: "dataframe \<Rightarrow> nat \<Rightarrow> bool" where
  \<comment> \<open>row \<open>i\<close> of a coerced frame has one of the four kinds of problem: a ratio out
      of bounds, an end before its start, a maximum below the mean, a value with a
      fractional part in an integer column\<close>
  "row_problem d i =
     (cell_lt_const (loc d i ''ad_click_rate'') 0 \<or> cell_gt_const (loc d i ''ad_click_rate'') 1
      \<or> cell_lt (loc d i ''period_end'') (loc d i ''period_start'')
      \<or> cell_lt (loc d i ''session_length_max'') (loc d i ''session_length_mean'')
      \<or> non_integer (loc d i ''avg_tab_cnt'') \<or> non_integer (loc d i ''search_freq''))"




text \<open>
  Sample coercions for the concrete inputs below, whose cells are numbers and timestamps
  already (on such cells pandas' coercions change nothing): \<open>num\<close> for \<open>to_numeric\<close>, and
  \<open>datetime_cell\<close> for \<open>to_datetime\<close>.
\<close>

definition datetime_cell :: "cell \<Rightarrow> int option" where
  "datetime_cell x = (case x of Stamp t \<Rightarrow> t | _ \<Rightarrow> None)"

definition sample_frame ::
  "(int \<times> int \<times> real \<times> real \<times> real \<times> real \<times> real) list \<Rightarrow> dataframe" where
  \<comment> \<open>the frame of the given rows: \<open>period_start\<close>, \<open>period_end\<close>, \<open>session_length_max\<close>,
      \<open>session_length_mean\<close>, \<open>avg_tab_cnt\<close>, \<open>search_freq\<close>, \<open>ad_click_rate\<close>\<close>
  "sample_frame rows =
     [(''period_start'', map (\<lambda>(s, e, mx, mn, t, q, r). Stamp (Some s)) rows),
      (''period_end'', map (\<lambda>(s, e, mx, mn, t, q, r). Stamp (Some e)) rows),
      (''session_length_max'', map (\<lambda>(s, e, mx, mn, t, q, r). Float (Some mx)) rows),
      (''session_length_mean'', map (\<lambda>(s, e, mx, mn, t, q, r). Float (Some mn)) rows),
      (''avg_tab_cnt'', map (\<lambda>(s, e, mx, mn, t, q, r). Float (Some t)) rows),
      (''search_freq'', map (\<lambda>(s, e, mx, mn, t, q, r). Float (Some q)) rows),
      (''ad_click_rate'', map (\<lambda>(s, e, mx, mn, t, q, r). Float (Some r)) rows)]"






definition fitted :: DataProcessor where
  \<comment> \<open>a sample processor after a fit, here on a frame of one row of zeros: its scaler
      holds the mean 0 and the scale 1 for each of the five columns\<close>
  "fitted = snd (fit_transform num datetime_cell (init (sample_frame [(0, 10, 0, 0, 0, 0, 0)])))"

definition sample_processor :: "dataframe \<Rightarrow> error + dataframe" where
  \<comment> \<open>\<open>processor.transform\<close> of the pickled sample processor\<close>
  "sample_processor d = fst (transform num datetime_cell fitted d)"

definition sample_proba :: "dataframe \<Rightarrow> real list" where
  \<comment> \<open>a sample \<open>predict_proba\<close>: a probability of 7/10 for every row\<close>
  "sample_proba X = replicate (len X) (7 / 10)"

definition no_predict :: "dataframe \<Rightarrow> int list" where
  "no_predict X = replicate (len X) 1"

definition sample_artifacts :: "dataframe artifacts" where
  \<comment> \<open>artifacts without a stored threshold\<close>
  "sample_artifacts =
     \<lparr> model = \<lparr> predict_proba = Some sample_proba, decision_function = None,
                 predict = no_predict \<rparr>,
       processor = sample_processor, threshold = None \<rparr>"

definition no_validator :: "dataframe \<Rightarrow> unit \<Rightarrow> nat option \<times> dataframe \<times> bool" where
  \<comment> \<open>a validator that finds nothing (it is not called when \<open>do_validate\<close> is false)\<close>
  "no_validator d config = (Some 0, d, True)"

section \<open>Properties of computeMetrics\<close>

lemmas q_defs = q_dwellTotal_def q_late_def q_snsEnt_def q_sessions_def q_avgTabCnt_def
  q_searchFreq_def q_topHosts_def

lemmas cm_eval = computeMetrics_def q_defs ex_dwell_def ex_visit_def sql_between_def
  sql_sum_def coalesce0_def js_round_def Let_def safeRatio_def sql_avg_def toFixed2_def
  js_div_def utcHour_def

lemma filter_dwell_empty:
  assumes "\<forall>e\<in>set db. type e = ''dwell'' \<longrightarrow> \<not> sql_between (ts e) a b"
  shows "filter (\<lambda>e. type e = ''dwell'' \<and> sql_between (ts e) a b \<and> Q e) db = []"
    and "filter (\<lambda>e. type e = ''dwell'' \<and> sql_between (ts e) a b) db = []"
  using assms by (auto simp: filter_empty_conv)

text \<open>
  C1. When no dwell event lies in the window, \<open>computeMetrics\<close> returns a row whose
  \<open>late_night_ratio\<close>, \<open>sns_ent_ratio\<close>, \<open>bounce_ratio\<close> and \<open>repeat_site_ratio\<close> are the
  number 0 (a finite number, so neither NaN nor an infinity), and whose \<open>avg_tab_cnt\<close> is 0
  as well when the window holds no \<open>tab_count\<close> event either. The function is total: it
  has no error result.
\<close>

theorem computeMetrics_no_dwell_ratios_zero:
  assumes "\<forall>e\<in>set db. type e = ''dwell'' \<longrightarrow> \<not> sql_between (ts e) aMs bMs"
  shows "late_night_ratio (computeMetrics localHour db aMs bMs) = Fin 0
       \<and> sns_ent_ratio (computeMetrics localHour db aMs bMs) = Fin 0
       \<and> bounce_ratio (computeMetrics localHour db aMs bMs) = Fin 0
       \<and> repeat_site_ratio (computeMetrics localHour db aMs bMs) = Fin 0
       \<and> ((\<forall>e\<in>set db. type e = ''tab_count'' \<longrightarrow> \<not> sql_between (ts e) aMs bMs)
            \<longrightarrow> avg_tab_cnt (computeMetrics localHour db aMs bMs) = Fin 0)"
proof -
  note emp = filter_dwell_empty[OF assms]
  have total: "q_dwellTotal db aMs bMs = 0"
    by (simp add: q_dwellTotal_def emp sql_sum_def coalesce0_def)
  have sess: "q_sessions db aMs bMs = []"
    by (simp add: q_sessions_def emp)
  have tabs: "q_avgTabCnt db aMs bMs = None"
    if "\<forall>e\<in>set db. type e = ''tab_count'' \<longrightarrow> \<not> sql_between (ts e) aMs bMs"
  proof -
    from that have "filter (\<lambda>e. type e = ''tab_count'' \<and> sql_between (ts e) aMs bMs) db = []"
      by (auto simp: filter_empty_conv)
    then show ?thesis by (simp add: q_avgTabCnt_def sql_avg_def)
  qed
  show ?thesis
    by (simp add: computeMetrics_def Let_def total sess safeRatio_def tabs toFixed2_def)
qed

theorem computeMetrics_no_dwell_ratios_zero_witness:
  "late_night_ratio (computeMetrics utcHour [ex_visit 10, ex_dwell 200 5000] 0 100) = Fin 0
   \<and> sns_ent_ratio (computeMetrics utcHour [ex_visit 10, ex_dwell 200 5000] 0 100) = Fin 0
   \<and> bounce_ratio (computeMetrics utcHour [ex_visit 10, ex_dwell 200 5000] 0 100) = Fin 0
   \<and> repeat_site_ratio (computeMetrics utcHour [ex_visit 10, ex_dwell 200 5000] 0 100) = Fin 0
   \<and> avg_tab_cnt (computeMetrics utcHour [ex_visit 10, ex_dwell 200 5000] 0 100) = Fin 0"
  using computeMetrics_no_dwell_ratios_zero
    [where db = "[ex_visit 10, ex_dwell 200 5000]" and aMs = 0 and bMs = 100
       and localHour = utcHour]
  by (simp add: ex_visit_def ex_dwell_def sql_between_def)

lemma coalesce0_sql_sum: "coalesce0 (sql_sum vs) = sum_list (non_null vs)"
  by (simp add: coalesce0_def sql_sum_def)

lemma non_null_filter:
  "non_null (map f (filter (\<lambda>e. P e \<and> f e \<noteq> None) xs)) = non_null (map f (filter P xs))"
  by (induction xs) (auto split: option.splits)

lemma window_filter:
  assumes "\<forall>e\<in>set (filter (\<lambda>e. a \<le> ts e \<and> ts e \<le> b) db). a' \<le> ts e \<and> ts e \<le> b'"
  shows "filter (\<lambda>e. P e \<and> sql_between (ts e) a' b' \<and> Q e)
           (filter (\<lambda>e. a \<le> ts e \<and> ts e \<le> b) db)
         = filter (\<lambda>e. P e \<and> sql_between (ts e) a b \<and> Q e) db"
    and "filter (\<lambda>e. P e \<and> sql_between (ts e) a' b')
           (filter (\<lambda>e. a \<le> ts e \<and> ts e \<le> b) db)
         = filter (\<lambda>e. P e \<and> sql_between (ts e) a b) db"
  unfolding filter_filter
  using assms by (auto simp: sql_between_def intro!: filter_cong)

lemma window_cover:
  assumes "\<forall>e\<in>set (filter (\<lambda>e. a \<le> ts e \<and> ts e \<le> b) db). a' \<le> ts e \<and> ts e \<le> b'"
  shows "computeMetrics localHour db a b
           = computeMetrics localHour (filter (\<lambda>e. a \<le> ts e \<and> ts e \<le> b) db) a' b'"
proof -
  let ?W = "filter (\<lambda>e. a \<le> ts e \<and> ts e \<le> b) db"
  note F = window_filter[OF assms]
  have q: "q_dwellTotal ?W a' b' = q_dwellTotal db a b"
    "q_late localHour ?W a' b' = q_late localHour db a b"
    "q_snsEnt ?W a' b' = q_snsEnt db a b"
    "q_sessions ?W a' b' = q_sessions db a b"
    "q_avgTabCnt ?W a' b' = q_avgTabCnt db a b"
    "q_searchFreq ?W a' b' = q_searchFreq db a b"
    "q_topHosts ?W a' b' = q_topHosts db a b"
    unfolding q_defs by (simp_all only: F)
  show ?thesis by (simp only: computeMetrics_def q)
qed

lemma window_queries:
  fixes a b db
  defines "W \<equiv> filter (\<lambda>e. a \<le> ts e \<and> ts e \<le> b) db"
  shows "q_dwellTotal db a b = sum_list (non_null (map dwell_ms (filter (\<lambda>e. type e = ''dwell'') W)))"
    and "q_sessions db a b = non_null (map dwell_ms (filter (\<lambda>e. type e = ''dwell'') W))"
    and "q_snsEnt db a b =
           sum_list (non_null (map dwell_ms
             (filter (\<lambda>e. type e = ''dwell'' \<and>
                (category e = Some ''sns'' \<or> category e = Some ''entertainment'')) W)))"
    and "q_searchFreq db a b =
           length (filter (\<lambda>e. type e = ''visit'' \<and>
                      (case category e of None \<Rightarrow> False
                       | Some c \<Rightarrow> c = ''search'' \<or> sql_like_search c)) W)"
proof -
  have D: "filter (\<lambda>e. type e = ''dwell'' \<and> sql_between (ts e) a b) db
             = filter (\<lambda>e. type e = ''dwell'') W"
    unfolding W_def filter_filter by (auto simp: sql_between_def intro!: filter_cong)
  show "q_dwellTotal db a b = sum_list (non_null (map dwell_ms (filter (\<lambda>e. type e = ''dwell'') W)))"
    by (simp only: q_dwellTotal_def coalesce0_sql_sum D)
  have "q_sessions db a b
          = non_null (map dwell_ms
              (filter (\<lambda>e. (type e = ''dwell'' \<and> sql_between (ts e) a b) \<and> dwell_ms e \<noteq> None) db))"
    by (simp add: q_sessions_def conj_ac)
  also have "\<dots> = non_null (map dwell_ms (filter (\<lambda>e. type e = ''dwell'' \<and> sql_between (ts e) a b) db))"
    by (rule non_null_filter)
  finally show "q_sessions db a b = non_null (map dwell_ms (filter (\<lambda>e. type e = ''dwell'') W))"
    by (simp only: D)
  show "q_snsEnt db a b =
           sum_list (non_null (map dwell_ms
             (filter (\<lambda>e. type e = ''dwell'' \<and>
                (category e = Some ''sns'' \<or> category e = Some ''entertainment'')) W)))"
    unfolding q_snsEnt_def coalesce0_sql_sum W_def filter_filter
    by (rule arg_cong[where f = "\<lambda>xs. sum_list (non_null (map dwell_ms xs))"])
       (auto simp: sql_between_def intro!: filter_cong)
  show "q_searchFreq db a b =
           length (filter (\<lambda>e. type e = ''visit'' \<and>
                      (case category e of None \<Rightarrow> False
                       | Some c \<Rightarrow> c = ''search'' \<or> sql_like_search c)) W)"
    unfolding q_searchFreq_def W_def filter_filter
    by (rule arg_cong[where f = length])
       (auto simp: sql_between_def intro!: filter_cong)
qed

text \<open>
  C3, as the code has it. Every query selects with \<open>ts BETWEEN @a AND @b\<close>, so
  \<open>computeMetrics\<close> aggregates exactly the events of the closed range
  \<open>windowStart <= ts <= windowEnd\<close>. Its result is the one it gives on those events
  alone, under any bounds that contain them: an event at \<open>windowEnd\<close> counts like one
  inside the window. A call with \<open>windowEnd = windowStart\<close> aggregates the events of that
  instant, and a call with \<open>windowEnd < windowStart\<close> returns the row of a window
  without events; neither is an error. When the events of the range are within the
  limits of \<open>within_limits\<close>, the share of SNS and entertainment time, the share of short
  sessions and the number of searches of the row are those of all the events of the
  closed range.
\<close>

theorem computeMetrics_window_closed:
  "(let W = filter (\<lambda>e. aMs \<le> ts e \<and> ts e \<le> bMs) db;
        sessions = non_null (map dwell_ms (filter (\<lambda>e. type e = ''dwell'') W));
        r = computeMetrics localHour db aMs bMs
    in (\<forall>a' b'. (\<forall>e\<in>set W. a' \<le> ts e \<and> ts e \<le> b') \<longrightarrow> r = computeMetrics localHour W a' b')
     \<and> (bMs = aMs \<longrightarrow> r = computeMetrics localHour (filter (\<lambda>e. ts e = aMs) db) aMs bMs)
     \<and> (bMs < aMs \<longrightarrow> r = computeMetrics localHour [] aMs bMs)
     \<and> (within_limits W \<longrightarrow>
          sns_ent_ratio r
            = (if 0 < sum_list sessions
               then Fin (real_of_int (sum_list (non_null (map dwell_ms
                           (filter (\<lambda>e. type e = ''dwell'' \<and>
                              (category e = Some ''sns'' \<or> category e = Some ''entertainment''))
                            W))))
                         / real_of_int (sum_list sessions))
               else Fin 0)
        \<and> bounce_ratio r
            = (if sessions = [] then Fin 0
               else Fin (real (length (filter (\<lambda>ms. ms \<le> 10000) sessions))
                         / real (length sessions)))
        \<and> search_freq r
            = length (filter (\<lambda>e. type e = ''visit'' \<and>
                        (case category e of None \<Rightarrow> False
                         | Some c \<Rightarrow> c = ''search'' \<or> sql_like_search c)) W)))"
proof -
  let ?W = "filter (\<lambda>e. aMs \<le> ts e \<and> ts e \<le> bMs) db"
  let ?r = "computeMetrics localHour db aMs bMs"
  have cover: "?r = computeMetrics localHour ?W a' b'"
    if "\<forall>e\<in>set ?W. a' \<le> ts e \<and> ts e \<le> b'" for a' b'
    using window_cover[OF that] .
  have self: "?r = computeMetrics localHour ?W aMs bMs"
    by (rule cover) simp
  have point: "?r = computeMetrics localHour (filter (\<lambda>e. ts e = aMs) db) aMs bMs" if "bMs = aMs"
  proof -
    from that have "?W = filter (\<lambda>e. ts e = aMs) db"
      by (auto intro!: filter_cong)
    with self show ?thesis by simp
  qed
  have none: "?r = computeMetrics localHour [] aMs bMs" if "bMs < aMs"
  proof -
    from that have "?W = []" by (auto simp: filter_empty_conv)
    with self show ?thesis by simp
  qed
  note q = window_queries[of db aMs bMs]
  have forms:
    "sns_ent_ratio ?r
       = (if 0 < sum_list (non_null (map dwell_ms (filter (\<lambda>e. type e = ''dwell'') ?W)))
          then Fin (real_of_int (sum_list (non_null (map dwell_ms
                      (filter (\<lambda>e. type e = ''dwell'' \<and>
                         (category e = Some ''sns'' \<or> category e = Some ''entertainment''))
                       ?W))))
                    / real_of_int (sum_list (non_null (map dwell_ms
                                     (filter (\<lambda>e. type e = ''dwell'') ?W)))))
          else Fin 0)"
    "bounce_ratio ?r
       = (if non_null (map dwell_ms (filter (\<lambda>e. type e = ''dwell'') ?W)) = [] then Fin 0
          else Fin (real (length (filter (\<lambda>ms. ms \<le> 10000)
                       (non_null (map dwell_ms (filter (\<lambda>e. type e = ''dwell'') ?W)))))
                    / real (length (non_null (map dwell_ms (filter (\<lambda>e. type e = ''dwell'') ?W))))))"
    "search_freq ?r
       = length (filter (\<lambda>e. type e = ''visit'' \<and>
                   (case category e of None \<Rightarrow> False
                    | Some c \<Rightarrow> c = ''search'' \<or> sql_like_search c)) ?W)"
    by (simp_all add: computeMetrics_def Let_def q js_div_def safeRatio_def)
  show ?thesis
    unfolding Let_def
    using cover point none forms by blast
qed

theorem computeMetrics_window_closed_witness:
  "within_limits [ex_dwell 0 5000, ex_sns 100 60000, ex_visit 100]
   \<and> sns_ent_ratio (computeMetrics utcHour
         [ex_dwell 0 5000, ex_sns 100 60000, ex_visit 100, ex_dwell 101 60000] 0 100)
       = Fin (12 / 13)
   \<and> bounce_ratio (computeMetrics utcHour
         [ex_dwell 0 5000, ex_sns 100 60000, ex_visit 100, ex_dwell 101 60000] 0 100)
       = Fin (1 / 2)
   \<and> search_freq (computeMetrics utcHour
         [ex_dwell 0 5000, ex_sns 100 60000, ex_visit 100, ex_dwell 101 60000] 0 100)
       = 1
   \<and> computeMetrics utcHour
         [ex_dwell 0 5000, ex_sns 100 60000, ex_visit 100, ex_dwell 101 60000] 0 100
       = computeMetrics utcHour [ex_dwell 0 5000, ex_sns 100 60000, ex_visit 100] (- 5) 200
   \<and> computeMetrics utcHour [ex_dwell 99 1000, ex_dwell 100 60000, ex_dwell 101 1000] 100 100
       = computeMetrics utcHour [ex_dwell 100 60000] 100 100
   \<and> computeMetrics utcHour [ex_dwell 5 60000] 10 0 = computeMetrics utcHour [] 10 0"
proof -
  let ?db = "[ex_dwell 0 5000, ex_sns 100 60000, ex_visit 100, ex_dwell 101 60000]"
  let ?W = "[ex_dwell 0 5000, ex_sns 100 60000, ex_visit 100]"
  have W: "filter (\<lambda>e. 0 \<le> ts e \<and> ts e \<le> 100) ?db = ?W"
    by (simp add: ex_dwell_def ex_sns_def ex_visit_def)
  have l: "within_limits ?W"
    by (simp add: within_limits_def ex_dwell_def ex_sns_def ex_visit_def)
  note t = computeMetrics_window_closed
    [where db = ?db and aMs = 0 and bMs = 100 and localHour = utcHour, unfolded Let_def W]
  from t l have forms:
    "sns_ent_ratio (computeMetrics utcHour ?db 0 100) = Fin (12 / 13)"
    "bounce_ratio (computeMetrics utcHour ?db 0 100) = Fin (1 / 2)"
    "search_freq (computeMetrics utcHour ?db 0 100) = 1"
    by (simp_all add: ex_dwell_def ex_sns_def ex_visit_def sql_like_search_def ascii_lower_def)
  from t have "\<forall>e\<in>set ?W. - 5 \<le> ts e \<and> ts e \<le> 200 \<Longrightarrow>
      computeMetrics utcHour ?db 0 100 = computeMetrics utcHour ?W (- 5) 200"
    by blast
  then have cover: "computeMetrics utcHour ?db 0 100 = computeMetrics utcHour ?W (- 5) 200"
    by (simp add: ex_dwell_def ex_sns_def ex_visit_def)
  from computeMetrics_window_closed
    [where db = "[ex_dwell 99 1000, ex_dwell 100 60000, ex_dwell 101 1000]"
       and aMs = 100 and bMs = 100 and localHour = utcHour]
  have point: "computeMetrics utcHour [ex_dwell 99 1000, ex_dwell 100 60000, ex_dwell 101 1000]
                 100 100
               = computeMetrics utcHour [ex_dwell 100 60000] 100 100"
    by (simp add: Let_def ex_dwell_def)
  from computeMetrics_window_closed
    [where db = "[ex_dwell 5 60000]" and aMs = 10 and bMs = 0 and localHour = utcHour]
  have none: "computeMetrics utcHour [ex_dwell 5 60000] 10 0 = computeMetrics utcHour [] 10 0"
    by (simp add: Let_def)
  from l forms cover point none show ?thesis by simp
qed

text \<open>
  C3 as stated fails: an event whose \<open>ts\<close> equals \<open>windowEnd\<close> is counted (here one minute
  of dwell time at \<open>ts = 100\<close> in the window from 0 to 100), and a call with
  \<open>windowEnd = windowStart\<close> returns a row, which counts that event too.
\<close>

theorem computeMetrics_window_end_counterexample:
  "total_usage (computeMetrics utcHour [ex_dwell 100 60000] 0 100) = Fin 1
   \<and> computeMetrics utcHour [ex_dwell 100 60000] 0 100 \<noteq> computeMetrics utcHour [] 0 100
   \<and> total_usage (computeMetrics utcHour [ex_dwell 100 60000] 100 100) = Fin 1"
  by (simp add: cm_eval)

text \<open>
  C8, as the code has it. When the dwell events of the window are exactly three, of
  5,000 ms, 15,000 ms and 95,000 ms (in any order, among events of other types),
  \<open>bounce_ratio\<close> is 1/3, \<open>session_length_max\<close> is 1.58 minutes and
  \<open>session_length_mean\<close> is 0.64 minutes: the mean of the three is 38,333.33 ms.
\<close>

theorem computeMetrics_scenario_A:
  assumes "mset (map dwell_ms (filter (\<lambda>e. type e = ''dwell'' \<and> sql_between (ts e) aMs bMs) db))
             = {#Some 5000, Some 15000, Some 95000#}"
  shows "bounce_ratio (computeMetrics localHour db aMs bMs) = Fin (1 / 3)
       \<and> session_length_max (computeMetrics localHour db aMs bMs) = Fin (158 / 100)
       \<and> session_length_mean (computeMetrics localHour db aMs bMs) = Fin (64 / 100)"
proof -
  have nn_mset: "mset (non_null vs) = image_mset the {#v \<in># mset vs. v \<noteq> None#}"
    for vs :: "int option list"
    by (induction vs rule: non_null.induct) auto
  have ff: "filter (\<lambda>e. type e = ''dwell'' \<and> sql_between (ts e) aMs bMs \<and> dwell_ms e \<noteq> None) db
     = filter (\<lambda>e. dwell_ms e \<noteq> None)
         (filter (\<lambda>e. type e = ''dwell'' \<and> sql_between (ts e) aMs bMs) db)"
    by (simp add: conj_ac)
  have nnf: "non_null (map f (filter (\<lambda>e. f e \<noteq> None) xs)) = non_null (map f xs)"
    for f :: "raw_event \<Rightarrow> int option" and xs
    by (induction xs) (auto split: option.splits)
  have S: "mset (q_sessions db aMs bMs) = {#5000, 15000, 95000#}"
    unfolding q_sessions_def ff nnf nn_mset assms by simp
  let ?s = "q_sessions db aMs bMs"
  have ne: "?s \<noteq> []" using S by auto
  have len: "length ?s = 3" using arg_cong[OF S, of size] by simp
  have sm: "sum_list ?s = 115000"
    using arg_cong[OF S, of sum_mset] by (simp add: sum_mset_sum_list)
  have st: "set ?s = {5000, 15000, 95000}" using arg_cong[OF S, of set_mset] by simp
  have sh: "length (filter (\<lambda>ms. ms \<le> 10000) ?s) = 1"
    using arg_cong[OF S, of "\<lambda>M. size (filter_mset (\<lambda>ms. ms \<le> 10000) M)"]
    by (simp flip: mset_filter)
  show ?thesis
    by (simp add: computeMetrics_def Let_def ne len sm st sh js_div_def js_round_def)
qed

theorem computeMetrics_scenario_A_witness:
  "bounce_ratio (computeMetrics utcHour
       [ex_dwell 30 95000, ex_visit 15, ex_dwell 10 5000, ex_dwell 20 15000, ex_dwell 200 7000]
       0 100) = Fin (1 / 3)
   \<and> session_length_max (computeMetrics utcHour
       [ex_dwell 30 95000, ex_visit 15, ex_dwell 10 5000, ex_dwell 20 15000, ex_dwell 200 7000]
       0 100) = Fin (158 / 100)
   \<and> session_length_mean (computeMetrics utcHour
       [ex_dwell 30 95000, ex_visit 15, ex_dwell 10 5000, ex_dwell 20 15000, ex_dwell 200 7000]
       0 100) = Fin (64 / 100)"
  using computeMetrics_scenario_A
    [where db = "[ex_dwell 30 95000, ex_visit 15, ex_dwell 10 5000, ex_dwell 20 15000,
                  ex_dwell 200 7000]"
       and aMs = 0 and bMs = 100 and localHour = utcHour]
  by (simp add: ex_visit_def ex_dwell_def sql_between_def)

text \<open>
  C8 as stated fails: on the three dwell events of Scenario A \<open>session_length_mean\<close> is
  0.64 minutes, not 0.61.
\<close>

theorem computeMetrics_scenario_A_counterexample:
  "session_length_mean
     (computeMetrics utcHour [ex_dwell 10 5000, ex_dwell 20 15000, ex_dwell 30 95000] 0 100)
     = Fin (64 / 100)
   \<and> session_length_mean
     (computeMetrics utcHour [ex_dwell 10 5000, ex_dwell 20 15000, ex_dwell 30 95000] 0 100)
     \<noteq> Fin (61 / 100)"
  by (simp add: cm_eval)

section \<open>Properties of validation\<close>

subsection \<open>Data frames under assignment\<close>

lemma columns_assign: "c \<in> set (columns d) \<Longrightarrow> columns (assign c vs d) = columns d"
  unfolding columns_def assign_def by (simp add: update_keys)

lemma series_assign: "series (assign c vs d) c' = (if c' = c then vs else series d c')"
  unfolding series_def assign_def by (simp add: update_conv')

lemma len_assign:
  "c \<in> set (columns d) \<Longrightarrow> length vs = length (series d c) \<Longrightarrow> len (assign c vs d) = len d"
  unfolding columns_def assign_def series_def len_def
  by (cases d) (auto split: prod.splits)

lemma fold_assign_map:
  "columns (fold (\<lambda>c d'. if c \<in> set (columns d') then assign c (map (g c) (series d' c)) d'
                          else d') cs d)
     = columns d
   \<and> len (fold (\<lambda>c d'. if c \<in> set (columns d') then assign c (map (g c) (series d' c)) d'
                        else d') cs d)
     = len d"
  by (induction cs arbitrary: d) (simp_all add: columns_assign len_assign)

lemma columns_coerced [simp]: "columns (coerced tn td d) = columns d"
  and len_coerced [simp]: "len (coerced tn td d) = len d"
  using fold_assign_map[of "\<lambda>c x. Float (tn x)" "NUMERIC_COLUMNS @ RATIO_COLUMNS" d]
        fold_assign_map[of "\<lambda>c x. Stamp (td x)" "[''period_start'', ''period_end'']"
                           "coerce_numeric tn d"]
  unfolding coerced_def coerce_numeric_def coerce_dates_def by simp_all

lemma required_present:
  "missing_cols d = [] \<Longrightarrow> c \<in> set REQUIRED_COLUMNS \<Longrightarrow> c \<in> set (columns d)"
  unfolding missing_cols_def by (auto simp: filter_empty_conv)

subsection \<open>The checks accumulate\<close>

lemma report_rows_eq:
  "report_rows rows entry v =
     v\<lparr> problems := problems v + length rows, failure_rows := failure_rows v @ map entry rows \<rparr>"
  by (simp add: report_rows_def)

lemma frame_checks [simp]:
  "frame (check_dates v) = frame v"
  "frame (check_ratio c v) = frame v"
  "frame (check_max_mean v) = frame v"
  "frame (check_integer c v) = frame v"
  by (simp_all add: check_dates_def check_ratio_def check_max_mean_def check_integer_def Let_def
        report_rows_eq)

lemma problems_fresh:
  "problems (check_dates (fresh d)) = length (failure_rows (check_dates (fresh d)))"
  by (simp add: check_dates_def Let_def report_rows_eq fresh_def)

lemma check_step:
  "problems (check_ratio c v)
     = problems v + length (failure_rows (check_ratio c (fresh (frame v))))"
  "failure_rows (check_ratio c v)
     = failure_rows v @ failure_rows (check_ratio c (fresh (frame v)))"
  "problems (check_max_mean v)
     = problems v + length (failure_rows (check_max_mean (fresh (frame v))))"
  "failure_rows (check_max_mean v)
     = failure_rows v @ failure_rows (check_max_mean (fresh (frame v)))"
  "problems (check_integer c v)
     = problems v + length (failure_rows (check_integer c (fresh (frame v))))"
  "failure_rows (check_integer c v)
     = failure_rows v @ failure_rows (check_integer c (fresh (frame v)))"
  by (simp_all add: check_ratio_def check_max_mean_def check_integer_def Let_def
        report_rows_eq fresh_def)

lemma run_checks_steps:
  fixes tn td d
  defines "e \<equiv> coerced tn td d"
  shows "frame (run_checks tn td d) = e"
    and "failure_rows (run_checks tn td d) =
           failure_rows (check_dates (fresh e))
           @ failure_rows (check_ratio ''ad_click_rate'' (fresh e))
           @ failure_rows (check_max_mean (fresh e))
           @ failure_rows (check_integer ''avg_tab_cnt'' (fresh e))
           @ failure_rows (check_integer ''search_freq'' (fresh e))"
    and "problems (run_checks tn td d) = length (failure_rows (run_checks tn td d))"
proof -
  define v1 where "v1 = check_dates (fresh e)"
  define v2 where "v2 = check_ratio ''ad_click_rate'' v1"
  define v3 where "v3 = check_max_mean v2"
  define v4 where "v4 = check_integer ''avg_tab_cnt'' v3"
  define v5 where "v5 = check_integer ''search_freq'' v4"
  have r: "run_checks tn td d = v5"
    by (simp add: run_checks_def INTEGER_COLUMNS_def RATIO_COLUMNS_def e_def
          v1_def v2_def v3_def v4_def v5_def)
  have f: "frame v1 = e" "frame v2 = e" "frame v3 = e" "frame v4 = e" "frame v5 = e"
    by (simp_all add: v1_def v2_def v3_def v4_def v5_def fresh_def)
  show "frame (run_checks tn td d) = e" by (simp add: r f)
  have p1: "problems v1 = length (failure_rows v1)"
    by (simp add: v1_def problems_fresh)
  have s2: "failure_rows v2
              = failure_rows v1 @ failure_rows (check_ratio ''ad_click_rate'' (fresh e))"
       "problems v2
              = problems v1 + length (failure_rows (check_ratio ''ad_click_rate'' (fresh e)))"
    using check_step(1,2)[of "''ad_click_rate''" v1] by (simp_all only: v2_def f)
  have s3: "failure_rows v3 = failure_rows v2 @ failure_rows (check_max_mean (fresh e))"
       "problems v3 = problems v2 + length (failure_rows (check_max_mean (fresh e)))"
    using check_step(3,4)[of v2] by (simp_all only: v3_def f)
  have s4: "failure_rows v4
              = failure_rows v3 @ failure_rows (check_integer ''avg_tab_cnt'' (fresh e))"
       "problems v4
              = problems v3 + length (failure_rows (check_integer ''avg_tab_cnt'' (fresh e)))"
    using check_step(5,6)[of "''avg_tab_cnt''" v3] by (simp_all only: v4_def f)
  have s5: "failure_rows v5
              = failure_rows v4 @ failure_rows (check_integer ''search_freq'' (fresh e))"
       "problems v5
              = problems v4 + length (failure_rows (check_integer ''search_freq'' (fresh e)))"
    using check_step(5,6)[of "''search_freq''" v4] by (simp_all only: v5_def f)
  show fr: "failure_rows (run_checks tn td d) =
           failure_rows (check_dates (fresh e))
           @ failure_rows (check_ratio ''ad_click_rate'' (fresh e))
           @ failure_rows (check_max_mean (fresh e))
           @ failure_rows (check_integer ''avg_tab_cnt'' (fresh e))
           @ failure_rows (check_integer ''search_freq'' (fresh e))"
    by (simp only: r s5 s4 s3 s2 v1_def append_assoc)
  show "problems (run_checks tn td d) = length (failure_rows (run_checks tn td d))"
    unfolding fr by (simp only: r s5 s4 s3 s2 p1 length_append add.assoc) (simp only: v1_def)
qed

lemma blocks:
  assumes "missing_cols e = []"
  shows "failure_rows (check_dates (fresh e)) = map (date_failure e) (invalid_dates e)"
    and "failure_rows (check_ratio ''ad_click_rate'' (fresh e))
           = map (ratio_failure e ''ad_click_rate'') (out_of_bounds ''ad_click_rate'' e)"
    and "failure_rows (check_max_mean (fresh e)) = map max_mean_failure (illogical e)"
    and "failure_rows (check_integer ''avg_tab_cnt'' (fresh e))
           = map (integer_failure e ''avg_tab_cnt'') (non_integers ''avg_tab_cnt'' e)"
    and "failure_rows (check_integer ''search_freq'' (fresh e))
           = map (integer_failure e ''search_freq'') (non_integers ''search_freq'' e)"
proof -
  have p: "''period_start'' \<in> set (columns e)" "''period_end'' \<in> set (columns e)"
    "''ad_click_rate'' \<in> set (columns e)" "''session_length_max'' \<in> set (columns e)"
    "''session_length_mean'' \<in> set (columns e)" "''avg_tab_cnt'' \<in> set (columns e)"
    "''search_freq'' \<in> set (columns e)"
    using required_present[OF assms] by (simp_all add: REQUIRED_COLUMNS_def)
  show "failure_rows (check_dates (fresh e)) = map (date_failure e) (invalid_dates e)"
    by (simp add: check_dates_def fresh_def p report_rows_def Let_def)
  show "failure_rows (check_ratio ''ad_click_rate'' (fresh e))
           = map (ratio_failure e ''ad_click_rate'') (out_of_bounds ''ad_click_rate'' e)"
    by (simp add: check_ratio_def fresh_def p report_rows_def Let_def)
  show "failure_rows (check_max_mean (fresh e)) = map max_mean_failure (illogical e)"
    by (simp add: check_max_mean_def fresh_def p report_rows_def Let_def)
  show "failure_rows (check_integer ''avg_tab_cnt'' (fresh e))
           = map (integer_failure e ''avg_tab_cnt'') (non_integers ''avg_tab_cnt'' e)"
    by (simp add: check_integer_def fresh_def p report_rows_def Let_def)
  show "failure_rows (check_integer ''search_freq'' (fresh e))
           = map (integer_failure e ''search_freq'') (non_integers ''search_freq'' e)"
    by (simp add: check_integer_def fresh_def p report_rows_def Let_def)
qed

lemma failure_rows_run_checks:
  assumes "missing_cols d = []"
  shows "failure_rows (run_checks tn td d) =
           map (date_failure (coerced tn td d)) (invalid_dates (coerced tn td d))
           @ map (ratio_failure (coerced tn td d) ''ad_click_rate'')
                 (out_of_bounds ''ad_click_rate'' (coerced tn td d))
           @ map max_mean_failure (illogical (coerced tn td d))
           @ map (integer_failure (coerced tn td d) ''avg_tab_cnt'')
                 (non_integers ''avg_tab_cnt'' (coerced tn td d))
           @ map (integer_failure (coerced tn td d) ''search_freq'')
                 (non_integers ''search_freq'' (coerced tn td d))"
proof -
  have "missing_cols (coerced tn td d) = []"
    using assms by (simp add: missing_cols_def)
  then show ?thesis
    by (simp only: run_checks_steps(2) blocks)
qed

lemma validate_data_ok:
  assumes "missing_cols d = []"
  shows "validate_data tn td d self =
           (if 0 < problems (run_checks tn td d)
            then (Inl (DataProcessingError (ValidationFailed (problems (run_checks tn td d)))),
                  self\<lparr> validation_failures_csv := Some (failure_rows (run_checks tn td d)) \<rparr>)
            else (Inr (coerced tn td d),
                  self\<lparr> self_report_validation :=
                     [''status'' \<mapsto> Text ''pass'', ''problems'' \<mapsto> Number 0,
                      ''failure_rows'' \<mapsto> Number 0] \<rparr>))"
  using assms by (simp add: validate_data_def Let_def run_checks_steps(1))

subsection \<open>Evaluation on the sample frames\<close>

lemmas frame_eval = sample_frame_def coerced_def coerce_numeric_def coerce_dates_def
  NUMERIC_COLUMNS_def RATIO_COLUMNS_def INTEGER_COLUMNS_def REQUIRED_COLUMNS_def
  columns_def assign_def series_def loc_def len_def row_index_def missing_cols_def
  datetime_cell_def

lemmas check_eval = invalid_dates_def out_of_bounds_def illogical_def non_integers_def
  date_failure_def ratio_failure_def max_mean_failure_def integer_failure_def
  cell_lt_def cell_lt_const_def cell_gt_const_def non_integer_def

lemma upt2: "[0..<2] = [0, 1]"
  by (simp add: upt_rec)


lemma frac_numeral [simp]: "frac (numeral n :: real) = 0"
  by (simp add: frac_def)

lemma init_sel [simp]:
  "self_df (init d) = d" "self_scaler (init d) = None"
  by (simp_all add: init_def)

lemma sample_missing: "missing_cols (sample_frame rows) = []"
  by (simp add: frame_eval)

lemma sample_coerced: "coerced num datetime_cell (sample_frame rows) = sample_frame rows"
  by (simp add: frame_eval case_prod_beta)

lemma sample_len: "len (sample_frame rows) = length rows"
  by (simp add: frame_eval)

lemma two_failures:
  "failure_rows (run_checks num datetime_cell
      (sample_frame [(0, 10, 2, 1, 3 / 2, 4, 1 / 2), (10, 5, 2, 1, 3, 4, 1 / 2)]))
   = [\<lparr> index = 1, column = ''period_start/period_end'', reason = ''end_before_start'',
        val = Dates (Stamp (Some 10)) (Stamp (Some 5)) \<rparr>,
      \<lparr> index = 0, column = ''avg_tab_cnt'', reason = ''non_integer_value'',
        val = Cell (Float (Some (3 / 2))) \<rparr>]"
  unfolding failure_rows_run_checks[OF sample_missing] sample_coerced
  by (simp add: check_eval sample_frame_def loc_def series_def row_index_def len_def upt2)

lemma no_failures:
  "failure_rows (run_checks num datetime_cell
      (sample_frame [(0, 10, 2, 1, 3, 4, 1 / 2), (10, 15, 2, 1, 3, 4, 1 / 2)])) = []"
  unfolding failure_rows_run_checks[OF sample_missing] sample_coerced
  by (simp add: check_eval sample_frame_def loc_def series_def row_index_def len_def upt2)

lemma scenario_B_failures:
  "failure_rows (run_checks num datetime_cell (sample_frame [(0, 10, 2, 1, 3, 4, 3 / 2)]))
   = [\<lparr> index = 0, column = ''ad_click_rate'', reason = ''ratio_out_of_bounds'',
        val = Cell (Float (Some (3 / 2))) \<rparr>]"
  unfolding failure_rows_run_checks[OF sample_missing] sample_coerced
  by (simp add: check_eval sample_frame_def loc_def series_def row_index_def len_def)

lemma negative_no_failures:
  "failure_rows (run_checks num datetime_cell (sample_frame [(0, 10, - 1, - 2, - 3, 4, 1 / 2)]))
     = []"
  unfolding failure_rows_run_checks[OF sample_missing] sample_coerced
  by (simp add: check_eval sample_frame_def loc_def series_def row_index_def len_def)

subsection \<open>C6: the missing-column check is the one hard stop\<close>

text \<open>
  C6. When an expected column is missing, \<open>_validate_data\<close> raises the missing-column
  error at once: the error names the missing columns, the object only gains the report
  entry \<open>missing_columns\<close>, no failure export is written, and no cell is looked at (a frame
  with the same column names gives the same outcome, whatever its cells and whatever the
  coercions). No other check stops validation: when no column is missing, the failure
  rows are those of the date check, then of the ratio check, then of the max/mean check,
  then of the integer checks, each computed on the coerced frame whatever the checks
  before it found, and only after all of them is the outcome decided.
\<close>

theorem validate_data_missing_columns_only_stop:
  "(missing_cols d \<noteq> [] \<longrightarrow>
       validate_data tn td d self =
         (Inl (DataProcessingError (MissingColumns (missing_cols d))),
          self\<lparr> self_report_validation :=
                  (self_report_validation self)(''missing_columns'' \<mapsto>
                     Names (missing_cols d)) \<rparr>)
       \<and> validation_failures_csv (snd (validate_data tn td d self))
           = validation_failures_csv self
       \<and> (\<forall>d' tn' td'. columns d' = columns d \<longrightarrow>
              validate_data tn' td' d' self = validate_data tn td d self))
   \<and> (missing_cols d = [] \<longrightarrow>
       failure_rows (run_checks tn td d) =
           map (date_failure (coerced tn td d)) (invalid_dates (coerced tn td d))
           @ map (ratio_failure (coerced tn td d) ''ad_click_rate'')
                 (out_of_bounds ''ad_click_rate'' (coerced tn td d))
           @ map max_mean_failure (illogical (coerced tn td d))
           @ map (integer_failure (coerced tn td d) ''avg_tab_cnt'')
                 (non_integers ''avg_tab_cnt'' (coerced tn td d))
           @ map (integer_failure (coerced tn td d) ''search_freq'')
                 (non_integers ''search_freq'' (coerced tn td d))
       \<and> problems (run_checks tn td d) = length (failure_rows (run_checks tn td d))
       \<and> validate_data tn td d self =
           (if 0 < problems (run_checks tn td d)
            then (Inl (DataProcessingError (ValidationFailed (problems (run_checks tn td d)))),
                  self\<lparr> validation_failures_csv :=
                          Some (failure_rows (run_checks tn td d)) \<rparr>)
            else (Inr (coerced tn td d),
                  self\<lparr> self_report_validation :=
                     [''status'' \<mapsto> Text ''pass'', ''problems'' \<mapsto> Number 0,
                      ''failure_rows'' \<mapsto> Number 0] \<rparr>)))"
proof (intro conjI impI allI)
  assume m: "missing_cols d \<noteq> []"
  then show "validate_data tn td d self =
         (Inl (DataProcessingError (MissingColumns (missing_cols d))),
          self\<lparr> self_report_validation :=
                  (self_report_validation self)(''missing_columns'' \<mapsto>
                     Names (missing_cols d)) \<rparr>)"
    by (simp add: validate_data_def)
  then show "validation_failures_csv (snd (validate_data tn td d self))
               = validation_failures_csv self"
    by simp
  fix d' tn' td'
  assume "columns d' = columns d"
  then have "missing_cols d' = missing_cols d" by (simp add: missing_cols_def)
  with m show "validate_data tn' td' d' self = validate_data tn td d self"
    by (simp add: validate_data_def)
next
  assume m: "missing_cols d = []"
  show "failure_rows (run_checks tn td d) =
           map (date_failure (coerced tn td d)) (invalid_dates (coerced tn td d))
           @ map (ratio_failure (coerced tn td d) ''ad_click_rate'')
                 (out_of_bounds ''ad_click_rate'' (coerced tn td d))
           @ map max_mean_failure (illogical (coerced tn td d))
           @ map (integer_failure (coerced tn td d) ''avg_tab_cnt'')
                 (non_integers ''avg_tab_cnt'' (coerced tn td d))
           @ map (integer_failure (coerced tn td d) ''search_freq'')
                 (non_integers ''search_freq'' (coerced tn td d))"
    by (rule failure_rows_run_checks[OF m])
  show "problems (run_checks tn td d) = length (failure_rows (run_checks tn td d))"
    by (rule run_checks_steps(3))
  show "validate_data tn td d self =
           (if 0 < problems (run_checks tn td d)
            then (Inl (DataProcessingError (ValidationFailed (problems (run_checks tn td d)))),
                  self\<lparr> validation_failures_csv :=
                          Some (failure_rows (run_checks tn td d)) \<rparr>)
            else (Inr (coerced tn td d),
                  self\<lparr> self_report_validation :=
                     [''status'' \<mapsto> Text ''pass'', ''problems'' \<mapsto> Number 0,
                      ''failure_rows'' \<mapsto> Number 0] \<rparr>))"
    by (rule validate_data_ok[OF m])
qed

theorem validate_data_missing_columns_only_stop_witness:
  "validate_data num datetime_cell [(''period_start'', [Stamp (Some 0)])]
       (init [(''period_start'', [Stamp (Some 0)])])
     = (Inl (DataProcessingError (MissingColumns
          [''period_end'', ''session_length_max'', ''session_length_mean'', ''avg_tab_cnt'',
           ''search_freq'', ''ad_click_rate''])),
        (init [(''period_start'', [Stamp (Some 0)])])\<lparr> self_report_validation :=
           [''missing_columns'' \<mapsto> Names
              [''period_end'', ''session_length_max'', ''session_length_mean'', ''avg_tab_cnt'',
               ''search_freq'', ''ad_click_rate'']] \<rparr>)
   \<and> validation_failures_csv (snd (validate_data num datetime_cell
         [(''period_start'', [Stamp (Some 0)])] (init [(''period_start'', [Stamp (Some 0)])])))
       = None
   \<and> validate_data num datetime_cell [(''period_start'', [Str ''soon''])]
         (init [(''period_start'', [Stamp (Some 0)])])
       = validate_data num datetime_cell [(''period_start'', [Stamp (Some 0)])]
           (init [(''period_start'', [Stamp (Some 0)])])
   \<and> problems (run_checks num datetime_cell
         (sample_frame [(0, 10, 2, 1, 3 / 2, 4, 1 / 2), (10, 5, 2, 1, 3, 4, 1 / 2)])) = 2
   \<and> fst (validate_data num datetime_cell
         (sample_frame [(0, 10, 2, 1, 3 / 2, 4, 1 / 2), (10, 5, 2, 1, 3, 4, 1 / 2)])
         (init (sample_frame [(0, 10, 2, 1, 3 / 2, 4, 1 / 2), (10, 5, 2, 1, 3, 4, 1 / 2)])))
       = Inl (DataProcessingError (ValidationFailed 2))"
proof -
  let ?m = "[(''period_start'', [Stamp (Some 0)])]"
  let ?m' = "[(''period_start'', [Str ''soon''])]"
  let ?bad = "sample_frame [(0, 10, 2, 1, 3 / 2, 4, 1 / 2), (10, 5, 2, 1, 3, 4, 1 / 2)]"
  have mc: "missing_cols ?m = [''period_end'', ''session_length_max'', ''session_length_mean'',
      ''avg_tab_cnt'', ''search_freq'', ''ad_click_rate'']"
    by (simp add: missing_cols_def REQUIRED_COLUMNS_def columns_def)
  have cols: "columns ?m' = columns ?m" by (simp add: columns_def)
  have iv: "validation_failures_csv (init ?m) = None"
      "self_report_validation (init ?m) = Map.empty"
    by (simp_all add: init_def)
  from validate_data_missing_columns_only_stop
         [where d = ?m and tn = num and td = datetime_cell and self = "init ?m"]
  have one: "validate_data num datetime_cell ?m (init ?m) =
         (Inl (DataProcessingError (MissingColumns (missing_cols ?m))),
          (init ?m)\<lparr> self_report_validation :=
                  (self_report_validation (init ?m))(''missing_columns'' \<mapsto>
                     Names (missing_cols ?m)) \<rparr>)"
    and two: "validation_failures_csv (snd (validate_data num datetime_cell ?m (init ?m)))
               = validation_failures_csv (init ?m)"
    and three: "\<And>d' tn' td'. columns d' = columns ?m \<Longrightarrow>
              validate_data tn' td' d' (init ?m) = validate_data num datetime_cell ?m (init ?m)"
    using mc by simp_all
  from validate_data_missing_columns_only_stop
         [where d = ?bad and tn = num and td = datetime_cell and self = "init ?bad"]
  have four: "problems (run_checks num datetime_cell ?bad)
                = length (failure_rows (run_checks num datetime_cell ?bad))"
    and five: "validate_data num datetime_cell ?bad (init ?bad) =
           (if 0 < problems (run_checks num datetime_cell ?bad)
            then (Inl (DataProcessingError
                         (ValidationFailed (problems (run_checks num datetime_cell ?bad)))),
                  (init ?bad)\<lparr> validation_failures_csv :=
                                 Some (failure_rows (run_checks num datetime_cell ?bad)) \<rparr>)
            else (Inr (coerced num datetime_cell ?bad),
                  (init ?bad)\<lparr> self_report_validation :=
                     [''status'' \<mapsto> Text ''pass'', ''problems'' \<mapsto> Number 0,
                      ''failure_rows'' \<mapsto> Number 0] \<rparr>))"
    using sample_missing by simp_all
  have p2: "problems (run_checks num datetime_cell ?bad) = 2"
    using four by (simp add: two_failures)
  show ?thesis
    using one two three[OF cols] p2 five by (simp add: mc iv)
qed

subsection \<open>C7: the order of the failure list\<close>

lemma check_rank_values:
  "check_rank ''period_start/period_end'' = 0"
  "check_rank ''ad_click_rate'' = 1"
  "check_rank ''session_length_max/mean'' = 2"
  "check_rank ''avg_tab_cnt'' = 3"
  "check_rank ''search_freq'' = 4"
  by (simp_all add: check_rank_def check_order_def RATIO_COLUMNS_def INTEGER_COLUMNS_def)

lemma sorted_block:
  assumes "\<And>i. column (entry i) = c" "\<And>i. index (entry i) = i"
  shows "sorted_wrt failure_order (map entry (filter P (row_index d)))"
proof -
  have "sorted_wrt (<) (filter P [0..<len d])"
    by (intro sorted_wrt_filter) simp
  then show ?thesis
    unfolding sorted_wrt_map row_index_def
    by (rule sorted_wrt_mono_rel[rotated]) (simp add: failure_order_def assms)
qed

lemma sorted_findings:
  assumes "missing_cols d = []"
  shows "sorted_wrt failure_order (failure_rows (run_checks tn td d))"
proof -
  let ?e = "coerced tn td d"
  have b1: "sorted_wrt failure_order (map (date_failure ?e) (invalid_dates ?e))"
    unfolding invalid_dates_def by (rule sorted_block) (simp_all add: date_failure_def)
  have b2: "sorted_wrt failure_order (map (ratio_failure ?e c) (out_of_bounds c ?e))" for c
    unfolding out_of_bounds_def by (rule sorted_block) (simp_all add: ratio_failure_def)
  have b3: "sorted_wrt failure_order (map max_mean_failure (illogical ?e))"
    unfolding illogical_def by (rule sorted_block) (simp_all add: max_mean_failure_def)
  have b4: "sorted_wrt failure_order (map (integer_failure ?e c) (non_integers c ?e))" for c
    unfolding non_integers_def by (rule sorted_block) (simp_all add: integer_failure_def)
  have c1: "\<forall>f\<in>set (map (date_failure ?e) (invalid_dates ?e)). check_rank (column f) = 0"
    by (simp add: date_failure_def check_rank_values)
  have c2: "\<forall>f\<in>set (map (ratio_failure ?e ''ad_click_rate'')
                         (out_of_bounds ''ad_click_rate'' ?e)). check_rank (column f) = 1"
    by (simp add: ratio_failure_def check_rank_values)
  have c3: "\<forall>f\<in>set (map max_mean_failure (illogical ?e)). check_rank (column f) = 2"
    by (simp add: max_mean_failure_def check_rank_values)
  have c4: "\<forall>f\<in>set (map (integer_failure ?e ''avg_tab_cnt'')
                         (non_integers ''avg_tab_cnt'' ?e)). check_rank (column f) = 3"
    by (simp add: integer_failure_def check_rank_values)
  have c5: "\<forall>f\<in>set (map (integer_failure ?e ''search_freq'')
                         (non_integers ''search_freq'' ?e)). check_rank (column f) = 4"
    by (simp add: integer_failure_def check_rank_values)
  have lt: "check_rank (column f) < check_rank (column g) \<Longrightarrow> failure_order f g" for f g
    by (simp add: failure_order_def)
  show ?thesis
    unfolding failure_rows_run_checks[OF assms] sorted_wrt_append
    using b1 b2 b3 b4 c1 c2 c3 c4 c5
    by (auto intro!: lt simp del: set_map)
qed

text \<open>
  C7, as the code has it. When validation finds problems, the list written to
  \<open>validation_failures.csv\<close> is a function of the input, ordered by check first (dates,
  ratio bounds, max against mean, then the integer columns in schema order) and by row
  index within a check. When it finds none, the coerced frame it returns has as many rows
  as the input.
\<close>

theorem validation_failure_list_order:
  "(missing_cols d = [] \<longrightarrow> 0 < problems (run_checks tn td d) \<longrightarrow>
       validation_failures_csv (snd (validate_data tn td d self))
         = Some (failure_rows (run_checks tn td d))
       \<and> sorted_wrt failure_order (failure_rows (run_checks tn td d)))
   \<and> (\<forall>d'. fst (validate_data tn td d self) = Inr d' \<longrightarrow> len d' = len d)"
proof (intro conjI impI allI)
  assume m: "missing_cols d = []" and p: "0 < problems (run_checks tn td d)"
  show "validation_failures_csv (snd (validate_data tn td d self))
         = Some (failure_rows (run_checks tn td d))"
    by (simp add: validate_data_ok[OF m] p)
  show "sorted_wrt failure_order (failure_rows (run_checks tn td d))"
    by (rule sorted_findings[OF m])
next
  fix d' assume a: "fst (validate_data tn td d self) = Inr d'"
  then have m: "missing_cols d = []" by (auto simp: validate_data_def split: if_splits)
  from a have "d' = coerced tn td d"
    by (auto simp: validate_data_ok[OF m] split: if_splits)
  then show "len d' = len d" by simp
qed

theorem validation_failure_list_order_witness:
  "validation_failures_csv (snd (validate_data num datetime_cell
      (sample_frame [(0, 10, 2, 1, 3 / 2, 4, 1 / 2), (10, 5, 2, 1, 3, 4, 1 / 2)])
      (init (sample_frame [(0, 10, 2, 1, 3 / 2, 4, 1 / 2), (10, 5, 2, 1, 3, 4, 1 / 2)]))))
     = Some (failure_rows (run_checks num datetime_cell
         (sample_frame [(0, 10, 2, 1, 3 / 2, 4, 1 / 2), (10, 5, 2, 1, 3, 4, 1 / 2)])))
   \<and> sorted_wrt failure_order (failure_rows (run_checks num datetime_cell
         (sample_frame [(0, 10, 2, 1, 3 / 2, 4, 1 / 2), (10, 5, 2, 1, 3, 4, 1 / 2)])))
   \<and> fst (validate_data num datetime_cell
         (sample_frame [(0, 10, 2, 1, 3, 4, 1 / 2), (10, 15, 2, 1, 3, 4, 1 / 2)])
         (init (sample_frame [(0, 10, 2, 1, 3, 4, 1 / 2), (10, 15, 2, 1, 3, 4, 1 / 2)])))
       = Inr (sample_frame [(0, 10, 2, 1, 3, 4, 1 / 2), (10, 15, 2, 1, 3, 4, 1 / 2)])
   \<and> len (sample_frame [(0, 10, 2, 1, 3, 4, 1 / 2), (10, 15, 2, 1, 3, 4, 1 / 2)]) = 2"
proof -
  let ?bad = "sample_frame [(0, 10, 2, 1, 3 / 2, 4, 1 / 2), (10, 5, 2, 1, 3, 4, 1 / 2)]"
  let ?ok = "sample_frame [(0, 10, 2, 1, 3, 4, 1 / 2), (10, 15, 2, 1, 3, 4, 1 / 2)]"
  have p: "0 < problems (run_checks num datetime_cell ?bad)"
    by (simp add: run_checks_steps(3) two_failures)
  have ok: "fst (validate_data num datetime_cell ?ok (init ?ok)) = Inr ?ok"
    by (simp add: validate_data_ok[OF sample_missing] run_checks_steps(3) sample_coerced
          no_failures)
  show ?thesis
    using validation_failure_list_order
            [where d = ?bad and tn = num and td = datetime_cell and self = "init ?bad"]
          validation_failure_list_order
            [where d = ?ok and tn = num and td = datetime_cell and self = "init ?ok"]
          p ok sample_missing[of "[(0, 10, 2, 1, 3 / 2, 4, 1 / 2), (10, 5, 2, 1, 3, 4, 1 / 2)]"]
    by (simp add: sample_len)
qed

text \<open>
  C7 as stated fails: the list is not sorted by row index first. With a fractional
  \<open>avg_tab_cnt\<close> in row 0 and an end before its start in row 1, the failure of row 1 is
  written before the failure of row 0.
\<close>

theorem validation_failure_list_order_counterexample:
  "validation_failures_csv (snd (validate_data num datetime_cell
      (sample_frame [(0, 10, 2, 1, 3 / 2, 4, 1 / 2), (10, 5, 2, 1, 3, 4, 1 / 2)])
      (init (sample_frame [(0, 10, 2, 1, 3 / 2, 4, 1 / 2), (10, 5, 2, 1, 3, 4, 1 / 2)]))))
   = Some [\<lparr> index = 1, column = ''period_start/period_end'', reason = ''end_before_start'',
             val = Dates (Stamp (Some 10)) (Stamp (Some 5)) \<rparr>,
           \<lparr> index = 0, column = ''avg_tab_cnt'', reason = ''non_integer_value'',
             val = Cell (Float (Some (3 / 2))) \<rparr>]
   \<and> \<not> sorted (map index
         [\<lparr> index = 1, column = ''period_start/period_end'', reason = ''end_before_start'',
             val = Dates (Stamp (Some 10)) (Stamp (Some 5)) \<rparr>,
          \<lparr> index = 0, column = ''avg_tab_cnt'', reason = ''non_integer_value'',
             val = Cell (Float (Some (3 / 2))) \<rparr>])"
  by (simp add: validate_data_ok[OF sample_missing] run_checks_steps(3) two_failures)

subsection \<open>C4: what an accepted frame guarantees about signs\<close>

lemma num_notna: "num x = Some u \<Longrightarrow> notna x"
  by (cases x) auto

lemma cell_lt_notna: "cell_lt x y \<Longrightarrow> notna x \<and> notna y"
  by (auto simp: cell_lt_def num_notna split: option.splits)

text \<open>
  C4, as the code has it. In a frame that \<open>_validate_data\<close> accepts, no value of a ratio
  column is negative. (The validator has no sign check for the other numeric columns.)
\<close>

theorem validated_ratio_not_negative:
  assumes "fst (validate_data tn td d self) = Inr d'"
      and "c \<in> set RATIO_COLUMNS" and "i < len d'" and "num (loc d' i c) = Some x"
  shows "0 \<le> x"
proof -
  from assms(1) have m: "missing_cols d = []"
    by (auto simp: validate_data_def split: if_splits)
  from assms(1) have d': "d' = coerced tn td d" and p: "problems (run_checks tn td d) = 0"
    by (auto simp: validate_data_ok[OF m] split: if_splits)
  from p have "failure_rows (run_checks tn td d) = []"
    by (simp add: run_checks_steps(3))
  then have "out_of_bounds ''ad_click_rate'' d' = []"
    unfolding failure_rows_run_checks[OF m] d' by simp
  moreover have "i \<in> set (row_index d')" using assms(3) by (simp add: row_index_def)
  moreover have "c = ''ad_click_rate''" using assms(2) by (simp add: RATIO_COLUMNS_def)
  ultimately have "\<not> (notna (loc d' i c)
      \<and> (cell_lt_const (loc d' i c) 0 \<or> cell_gt_const (loc d' i c) 1))"
    unfolding out_of_bounds_def by (auto simp: filter_empty_conv)
  with assms(4) show ?thesis
    by (auto simp: cell_lt_const_def num_notna)
qed

theorem validated_ratio_not_negative_witness:
  "fst (validate_data num datetime_cell (sample_frame [(0, 10, - 1, - 2, - 3, 4, 1 / 2)])
          (init (sample_frame [(0, 10, - 1, - 2, - 3, 4, 1 / 2)])))
     = Inr (sample_frame [(0, 10, - 1, - 2, - 3, 4, 1 / 2)])
   \<and> num (loc (sample_frame [(0, 10, - 1, - 2, - 3, 4, 1 / 2)]) 0 ''ad_click_rate'')
       = Some (1 / 2)
   \<and> (0::real) \<le> 1 / 2"
proof -
  let ?d = "sample_frame [(0, 10, - 1, - 2, - 3, 4, 1 / 2)]"
  have a: "fst (validate_data num datetime_cell ?d (init ?d)) = Inr ?d"
    by (simp add: validate_data_ok[OF sample_missing] run_checks_steps(3) negative_no_failures
          sample_coerced)
  have b: "''ad_click_rate'' \<in> set RATIO_COLUMNS" by (simp add: RATIO_COLUMNS_def)
  have c: "0 < len ?d" by (simp add: sample_len)
  have d: "num (loc ?d 0 ''ad_click_rate'') = Some (1 / 2)"
    by (simp add: sample_frame_def loc_def series_def)
  from a d validated_ratio_not_negative[OF a b c d] show ?thesis by simp
qed

text \<open>
  C4 as stated fails: a frame whose \<open>session_length_max\<close>, \<open>session_length_mean\<close> and
  \<open>avg_tab_cnt\<close> are negative is accepted as it is.
\<close>

theorem validated_ratio_not_negative_counterexample:
  "fst (validate_data num datetime_cell (sample_frame [(0, 10, - 1, - 2, - 3, 4, 1 / 2)])
          (init (sample_frame [(0, 10, - 1, - 2, - 3, 4, 1 / 2)])))
     = Inr (sample_frame [(0, 10, - 1, - 2, - 3, 4, 1 / 2)])
   \<and> loc (sample_frame [(0, 10, - 1, - 2, - 3, 4, 1 / 2)]) 0 ''session_length_max''
       = Float (Some (- 1))
   \<and> loc (sample_frame [(0, 10, - 1, - 2, - 3, 4, 1 / 2)]) 0 ''avg_tab_cnt''
       = Float (Some (- 3))"
  by (simp add: validate_data_ok[OF sample_missing] run_checks_steps(3) negative_no_failures
        sample_coerced)
     (simp add: sample_frame_def loc_def series_def)

section \<open>Properties of fit_transform and transform\<close>

subsection \<open>C2: a fit on a frame with problems\<close>

text \<open>
  C2, as the code has it. When validation finds problems in the frame of the object,
  \<open>fit_transform\<close> does not go on to cleaning or scaling: it writes the failure export,
  leaves \<open>self._scaler\<close> as it was, and returns. It raises nothing: its \<open>except\<close>
  clause turns the validation error into a normal result, an empty frame beside
  \<open>self._report\<close>, without \<open>scaled_columns\<close> and without a scaler.
\<close>

theorem fit_transform_returns_on_validation_problems:
  assumes "missing_cols (self_df self) = []"
      and "0 < problems (run_checks tn td (self_df self))"
  shows "fit_transform tn td self =
           (Inr ([], report (self\<lparr> validation_failures_csv :=
                      Some (failure_rows (run_checks tn td (self_df self))) \<rparr>)),
            self\<lparr> validation_failures_csv :=
                      Some (failure_rows (run_checks tn td (self_df self))) \<rparr>)
       \<and> self_scaler (snd (fit_transform tn td self)) = self_scaler self
       \<and> scaler (snd (projr (fst (fit_transform tn td self)))) = None"
  using assms
  by (simp add: fit_transform_def fit_transform_try_def validate_data_ok report_def)

theorem fit_transform_returns_on_validation_problems_witness:
  "fit_transform num datetime_cell (init (sample_frame [(0, 10, 2, 1, 3, 4, 3 / 2)])) =
     (Inr ([], report ((init (sample_frame [(0, 10, 2, 1, 3, 4, 3 / 2)]))\<lparr>
                  validation_failures_csv :=
                    Some (failure_rows (run_checks num datetime_cell
                            (sample_frame [(0, 10, 2, 1, 3, 4, 3 / 2)]))) \<rparr>)),
      (init (sample_frame [(0, 10, 2, 1, 3, 4, 3 / 2)]))\<lparr>
                  validation_failures_csv :=
                    Some (failure_rows (run_checks num datetime_cell
                            (sample_frame [(0, 10, 2, 1, 3, 4, 3 / 2)]))) \<rparr>)
   \<and> self_scaler (snd (fit_transform num datetime_cell
        (init (sample_frame [(0, 10, 2, 1, 3, 4, 3 / 2)])))) = None"
  using fit_transform_returns_on_validation_problems
          [where self = "init (sample_frame [(0, 10, 2, 1, 3, 4, 3 / 2)])"
             and tn = num and td = datetime_cell]
  by (simp add: sample_missing run_checks_steps(3) scenario_B_failures)

text \<open>
  C2 as stated fails: on the frame of Scenario B (\<open>ad_click_rate = 1.5\<close>, one problem)
  \<open>fit_transform\<close> returns normally, so its caller observes no error.
\<close>

theorem fit_transform_returns_on_validation_problems_counterexample:
  "problems (run_checks num datetime_cell (sample_frame [(0, 10, 2, 1, 3, 4, 3 / 2)])) = 1
   \<and> \<not> isl (fst (fit_transform num datetime_cell
               (init (sample_frame [(0, 10, 2, 1, 3, 4, 3 / 2)]))))
   \<and> fst (projr (fst (fit_transform num datetime_cell
               (init (sample_frame [(0, 10, 2, 1, 3, 4, 3 / 2)]))))) = []
   \<and> self_scaler (snd (fit_transform num datetime_cell
               (init (sample_frame [(0, 10, 2, 1, 3, 4, 3 / 2)])))) = None"
proof -
  have p: "problems (run_checks num datetime_cell (sample_frame [(0, 10, 2, 1, 3, 4, 3 / 2)])) = 1"
    by (simp add: run_checks_steps(3) scenario_B_failures)
  show ?thesis
    by (simp add: p fit_transform_def fit_transform_try_def validate_data_ok sample_missing
          report_def init_def)
qed

subsection \<open>The fitted sample processor\<close>

lemma zero_row_no_failures:
  "failure_rows (run_checks num datetime_cell (sample_frame [(0, 10, 0, 0, 0, 0, 0)])) = []"
  unfolding failure_rows_run_checks[OF sample_missing] sample_coerced
  by (simp add: check_eval sample_frame_def loc_def series_def row_index_def len_def)

lemma zero_row_cleaned:
  "fst (preprocess_data (sample_frame [(0, 10, 0, 0, 0, 0, 0)]) s) =
     Inr [(''period_start'', [Stamp (Some 0)]), (''period_end'', [Stamp (Some 10)]),
          (''session_length_max'', [Float (Some 0)]), (''session_length_mean'', [Float (Some 0)]),
          (''avg_tab_cnt'', [Int64 (Some 0)]), (''search_freq'', [Int64 (Some 0)]),
          (''ad_click_rate'', [Float (Some 0)])]"
  by (simp add: preprocess_data_def sample_frame_def NUMERIC_COLUMNS_def RATIO_COLUMNS_def
        INTEGER_COLUMNS_def fill_numeric_def fill_ratio_def cap_outliers_def Let_def columns_def
        series_def assign_def dropna_def median_def fillna_def round_half_even_def clip_def
        append_log_def)

lemma fitted_scaler:
  "self_scaler fitted =
     Some \<lparr> means = [Some 0, Some 0, Some 0, Some 0, Some 0],
            scales = [Some 1, Some 1, Some 1, Some 1, Some 1] \<rparr>"
proof -
  let ?d = "sample_frame [(0, 10, 0, 0, 0, 0, 0)]"
  let ?c = "[(''period_start'', [Stamp (Some 0)]), (''period_end'', [Stamp (Some 10)]),
          (''session_length_max'', [Float (Some 0)]), (''session_length_mean'', [Float (Some 0)]),
          (''avg_tab_cnt'', [Int64 (Some 0)]), (''search_freq'', [Int64 (Some 0)]),
          (''ad_click_rate'', [Float (Some 0)])]"
  let ?s1 = "(init ?d)\<lparr> self_report_validation :=
         [''status'' \<mapsto> Text ''pass'', ''problems'' \<mapsto> Number 0,
          ''failure_rows'' \<mapsto> Number 0] \<rparr>"
  have v: "validate_data num datetime_cell ?d (init ?d) = (Inr ?d, ?s1)"
    by (simp add: validate_data_ok sample_missing run_checks_steps(3) sample_coerced
          zero_row_no_failures)
  obtain s2 where c: "preprocess_data ?d ?s1 = (Inr ?c, s2)"
    using zero_row_cleaned by (metis prod.collapse)
  have sf: "scaler_fit (NUMERIC_COLUMNS @ RATIO_COLUMNS) ?c =
      \<lparr> means = [Some 0, Some 0, Some 0, Some 0, Some 0],
        scales = [Some 1, Some 1, Some 1, Some 1, Some 1] \<rparr>"
    by (simp add: scaler_fit_def fit_column_def NUMERIC_COLUMNS_def RATIO_COLUMNS_def
          series_def dropna_def)
  have cols: "filter (\<lambda>c. c \<in> set (columns ?c)) (NUMERIC_COLUMNS @ RATIO_COLUMNS)
                = NUMERIC_COLUMNS @ RATIO_COLUMNS"
    by (simp add: NUMERIC_COLUMNS_def RATIO_COLUMNS_def columns_def)
  have ne: "NUMERIC_COLUMNS \<noteq> []" by (simp add: NUMERIC_COLUMNS_def)
  have ca: "check_array ?c = Inr ?c" by (simp add: check_array_def len_def)
  show ?thesis
    unfolding fitted_def
    by (simp add: fit_transform_def fit_transform_try_def v c Let_def cols ne ca sf append_log_def
          del: filter_append)
qed

subsection \<open>C10: transform validates again\<close>

lemma row_problem_found:
  assumes m: "missing_cols d = []" and i: "i < len d" and r: "row_problem (coerced tn td d) i"
  shows "0 < problems (run_checks tn td d)"
proof -
  let ?e = "coerced tn td d"
  have ii: "i \<in> set (row_index ?e)" using i by (simp add: row_index_def)
  from r consider
      "i \<in> set (out_of_bounds ''ad_click_rate'' ?e)"
    | "i \<in> set (invalid_dates ?e)"
    | "i \<in> set (illogical ?e)"
    | "i \<in> set (non_integers ''avg_tab_cnt'' ?e)"
    | "i \<in> set (non_integers ''search_freq'' ?e)"
    unfolding row_problem_def out_of_bounds_def invalid_dates_def illogical_def non_integers_def
    using ii cell_lt_notna
    by (auto simp: cell_lt_const_def cell_gt_const_def non_integer_def num_notna
             split: option.splits)
  then have "failure_rows (run_checks tn td d) \<noteq> []"
    unfolding failure_rows_run_checks[OF m] by cases auto
  then show ?thesis by (simp add: run_checks_steps(3))
qed

text \<open>
  C10. \<open>transform\<close> on a fitted processor runs \<open>_validate_data\<close> on its new input. When a
  row of the coerced input has a ratio out of bounds, an end before its start, a maximum
  below the mean or a fractional value in an integer column, \<open>transform\<close> raises the
  error of that validation (the count of problems, which is positive; or the missing
  columns, when the input lacks some) and returns no frame; the fitted scaler is left as
  it was.
\<close>

theorem transform_rejects_problem_rows:
  assumes "self_scaler self \<noteq> None" and "i < len d" and "row_problem (coerced tn td d) i"
  shows "fst (transform tn td self d) =
           Inl (DataProcessingError
                  (if missing_cols d \<noteq> [] then MissingColumns (missing_cols d)
                   else ValidationFailed (problems (run_checks tn td d))))
       \<and> (missing_cols d = [] \<longrightarrow> 0 < problems (run_checks tn td d))
       \<and> self_scaler (snd (transform tn td self d)) = self_scaler self"
proof (cases "missing_cols d = []")
  case True
  note p = row_problem_found[OF True assms(2,3)]
  from assms(1) obtain sc where "self_scaler self = Some sc" by auto
  then show ?thesis
    using True p by (simp add: transform_def validate_data_ok)
next
  case False
  from assms(1) obtain sc where "self_scaler self = Some sc" by auto
  then show ?thesis
    using False by (simp add: transform_def validate_data_def)
qed

theorem transform_rejects_problem_rows_witness:
  "self_scaler fitted \<noteq> None
   \<and> row_problem (coerced num datetime_cell (sample_frame [(0, 10, 2, 1, 3, 4, 3 / 2)])) 0
   \<and> fst (transform num datetime_cell fitted (sample_frame [(0, 10, 2, 1, 3, 4, 3 / 2)]))
       = Inl (DataProcessingError (ValidationFailed 1))
   \<and> self_scaler (snd (transform num datetime_cell fitted
        (sample_frame [(0, 10, 2, 1, 3, 4, 3 / 2)]))) = self_scaler fitted"
proof -
  have r: "row_problem (coerced num datetime_cell (sample_frame [(0, 10, 2, 1, 3, 4, 3 / 2)])) 0"
    unfolding sample_coerced
    by (simp add: row_problem_def sample_frame_def loc_def series_def cell_gt_const_def)
  have f: "self_scaler fitted \<noteq> None" by (simp add: fitted_scaler)
  have l: "(0::nat) < len (sample_frame [(0, 10, 2, 1, 3, 4, 3 / 2)])"
    by (simp add: sample_len)
  show ?thesis
    using r f transform_rejects_problem_rows[OF f l r]
    by (simp add: sample_missing run_checks_steps(3) scenario_B_failures)
qed

subsection \<open>C5: the cleaned frame and the frame that a fit returns\<close>















































section \<open>Properties of predict_dataframe\<close>

lemma one_row_no_failures:
  "failure_rows (run_checks num datetime_cell (sample_frame [(0, 10, 2, 1, 3, 4, 1 / 2)])) = []"
  unfolding failure_rows_run_checks[OF sample_missing] sample_coerced
  by (simp add: check_eval sample_frame_def loc_def series_def row_index_def len_def)

lemma one_row_cleaned:
  "fst (preprocess_data (sample_frame [(0, 10, 2, 1, 3, 4, 1 / 2)]) s) =
     Inr [(''period_start'', [Stamp (Some 0)]), (''period_end'', [Stamp (Some 10)]),
          (''session_length_max'', [Float (Some 2)]), (''session_length_mean'', [Float (Some 1)]),
          (''avg_tab_cnt'', [Int64 (Some 3)]), (''search_freq'', [Int64 (Some 4)]),
          (''ad_click_rate'', [Float (Some (1 / 2))])]"
  by (simp add: preprocess_data_def sample_frame_def NUMERIC_COLUMNS_def RATIO_COLUMNS_def
        INTEGER_COLUMNS_def fill_numeric_def fill_ratio_def cap_outliers_def Let_def columns_def
        series_def assign_def dropna_def median_def fillna_def round_half_even_def clip_def
        append_log_def)

lemma sample_processor_one_row:
  "sample_processor (sample_frame [(0, 10, 2, 1, 3, 4, 1 / 2)]) =
     Inr [(''period_start'', [Stamp (Some 0)]), (''period_end'', [Stamp (Some 10)]),
          (''session_length_max'', [Float (Some 2)]), (''session_length_mean'', [Float (Some 1)]),
          (''avg_tab_cnt'', [Float (Some 3)]), (''search_freq'', [Float (Some 4)]),
          (''ad_click_rate'', [Float (Some (1 / 2))])]"
proof -
  let ?d = "sample_frame [(0, 10, 2, 1, 3, 4, 1 / 2)]"
  let ?c = "[(''period_start'', [Stamp (Some 0)]), (''period_end'', [Stamp (Some 10)]),
          (''session_length_max'', [Float (Some 2)]), (''session_length_mean'', [Float (Some 1)]),
          (''avg_tab_cnt'', [Int64 (Some 3)]), (''search_freq'', [Int64 (Some 4)]),
          (''ad_click_rate'', [Float (Some (1 / 2))])]"
  have v: "validate_data num datetime_cell ?d fitted =
     (Inr ?d, fitted\<lparr> self_report_validation :=
         [''status'' \<mapsto> Text ''pass'', ''problems'' \<mapsto> Number 0,
          ''failure_rows'' \<mapsto> Number 0] \<rparr>)"
    by (simp add: validate_data_ok sample_missing run_checks_steps(3) sample_coerced
          one_row_no_failures)
  obtain s2 where c: "preprocess_data ?d (fitted\<lparr> self_report_validation :=
         [''status'' \<mapsto> Text ''pass'', ''problems'' \<mapsto> Number 0,
          ''failure_rows'' \<mapsto> Number 0] \<rparr>) = (Inr ?c, s2)"
    using one_row_cleaned by (metis prod.collapse)
  have sc: "self_scaler fitted = Some \<lparr> means = [Some 0, Some 0, Some 0, Some 0, Some 0],
              scales = [Some 1, Some 1, Some 1, Some 1, Some 1] \<rparr>"
    by (rule fitted_scaler)
  have t: "transform num datetime_cell fitted ?d =
      (Inr (scaler_transform \<lparr> means = [Some 0, Some 0, Some 0, Some 0, Some 0],
              scales = [Some 1, Some 1, Some 1, Some 1, Some 1] \<rparr>
              (filter (\<lambda>c. c \<in> set (columns ?c)) (NUMERIC_COLUMNS @ RATIO_COLUMNS)) ?c), s2)"
    by (simp add: transform_def sc v c Let_def NUMERIC_COLUMNS_def RATIO_COLUMNS_def columns_def
          check_array_def len_def)
  show ?thesis
    unfolding sample_processor_def t
    by (simp add: scaler_transform_def NUMERIC_COLUMNS_def RATIO_COLUMNS_def columns_def
          series_def assign_def scale_cell_def)
qed

lemma predict_ok:
  assumes "\<not> df_empty d" and "revalidate vf d dv cfg = Inr d'" and "processor art d' = Inr X"
      and "length (predict_probability (model art) X) = len d'"
  shows "predict_dataframe vf d art dv cfg =
           Inr (assign ''risk_flag''
                  (map (\<lambda>f. Int64 (Some f))
                     (map (risk_flag (load_threshold art (1 / 2)))
                        (predict_probability (model art) X)))
                  (assign ''risk_proba''
                     (map (\<lambda>q. Float (Some q)) (predict_probability (model art) X)) d'))"
  using assms by (simp add: predict_dataframe_def load_model_processor_def Let_def)

text \<open>
  C9, as the code has it. On an empty frame (no row, or no column) \<open>predict_dataframe\<close>
  raises the empty-input ValueError and returns nothing. On a frame that is not empty,
  when the optional validation passes (or is not asked for), the preprocessor's
  \<open>transform\<close> succeeds and the classifier gives one probability per row, it returns the
  frame with two columns set and every other column as it was: \<open>risk_proba\<close>, the
  probabilities as floats, and \<open>risk_flag\<close>, which is 1 exactly where the probability is
  at least the threshold of the artifacts (1/2 when they hold none) and 0 elsewhere.
\<close>

theorem predict_dataframe_flags:
  "(df_empty d \<longrightarrow> predict_dataframe vf d art dv cfg = Inl (ValueError EmptyInput))
   \<and> (\<not> df_empty d \<longrightarrow> revalidate vf d dv cfg = Inr d' \<longrightarrow> processor art d' = Inr X \<longrightarrow>
        length (predict_probability (model art) X) = len d' \<longrightarrow>
        (\<exists>out. predict_dataframe vf d art dv cfg = Inr out
           \<and> series out ''risk_proba''
               = map (\<lambda>q. Float (Some q)) (predict_probability (model art) X)
           \<and> series out ''risk_flag''
               = map (\<lambda>q. Int64 (Some (if (case threshold art of None \<Rightarrow> 1 / 2 | Some t \<Rightarrow> t) \<le> q
                                        then 1 else 0)))
                     (predict_probability (model art) X)
           \<and> (\<forall>c. c \<noteq> ''risk_proba'' \<and> c \<noteq> ''risk_flag'' \<longrightarrow> series out c = series d' c)))"
proof (intro conjI impI)
  assume "df_empty d"
  then show "predict_dataframe vf d art dv cfg = Inl (ValueError EmptyInput)"
    by (simp add: predict_dataframe_def)
next
  assume a: "\<not> df_empty d" "revalidate vf d dv cfg = Inr d'" "processor art d' = Inr X"
    "length (predict_probability (model art) X) = len d'"
  show "\<exists>out. predict_dataframe vf d art dv cfg = Inr out
           \<and> series out ''risk_proba''
               = map (\<lambda>q. Float (Some q)) (predict_probability (model art) X)
           \<and> series out ''risk_flag''
               = map (\<lambda>q. Int64 (Some (if (case threshold art of None \<Rightarrow> 1 / 2 | Some t \<Rightarrow> t) \<le> q
                                        then 1 else 0)))
                     (predict_probability (model art) X)
           \<and> (\<forall>c. c \<noteq> ''risk_proba'' \<and> c \<noteq> ''risk_flag'' \<longrightarrow> series out c = series d' c)"
    unfolding predict_ok[OF a]
    by (simp add: series_assign risk_flag_def load_threshold_def)
qed

theorem predict_dataframe_flags_witness:
  "predict_dataframe no_validator [] sample_artifacts False None = Inl (ValueError EmptyInput)
   \<and> (\<exists>out. predict_dataframe no_validator (sample_frame [(0, 10, 2, 1, 3, 4, 1 / 2)])
               sample_artifacts False None = Inr out
         \<and> series out ''risk_proba'' = [Float (Some (7 / 10))]
         \<and> series out ''risk_flag'' = [Int64 (Some 1)]
         \<and> series out ''ad_click_rate'' = [Float (Some (1 / 2))])"
proof -
  let ?d = "sample_frame [(0, 10, 2, 1, 3, 4, 1 / 2)]"
  let ?X = "[(''period_start'', [Stamp (Some 0)]), (''period_end'', [Stamp (Some 10)]),
          (''session_length_max'', [Float (Some 2)]), (''session_length_mean'', [Float (Some 1)]),
          (''avg_tab_cnt'', [Float (Some 3)]), (''search_freq'', [Float (Some 4)]),
          (''ad_click_rate'', [Float (Some (1 / 2))])]"
  have e: "df_empty []" by (simp add: df_empty_def)
  have n: "\<not> df_empty ?d" by (simp add: df_empty_def sample_len) (simp add: sample_frame_def)
  have r: "revalidate no_validator ?d False None = Inr ?d" by (simp add: revalidate_def)
  have p: "processor sample_artifacts ?d = Inr ?X"
    by (simp add: sample_artifacts_def sample_processor_one_row)
  have pp: "predict_probability (model sample_artifacts) ?X = [7 / 10]"
    by (simp add: predict_probability_def sample_artifacts_def sample_proba_def len_def)
  have l: "length (predict_probability (model sample_artifacts) ?X) = len ?d"
    by (simp add: pp sample_len)
  have th: "threshold sample_artifacts = None" by (simp add: sample_artifacts_def)
  have s: "series ?d ''ad_click_rate'' = [Float (Some (1 / 2))]"
    by (simp add: sample_frame_def series_def)
  from predict_dataframe_flags
         [where d = "[]" and vf = no_validator and art = sample_artifacts and dv = False
            and cfg = None]
  have one: "predict_dataframe no_validator [] sample_artifacts False None
               = Inl (ValueError EmptyInput)"
    using e by simp
  from predict_dataframe_flags
         [where d = ?d and d' = ?d and X = ?X and vf = no_validator and art = sample_artifacts
            and dv = False and cfg = None]
  obtain out where o: "predict_dataframe no_validator ?d sample_artifacts False None = Inr out"
      "series out ''risk_proba'' = [Float (Some (7 / 10))]"
      "series out ''risk_flag'' = [Int64 (Some 1)]"
      "\<forall>c. c \<noteq> ''risk_proba'' \<and> c \<noteq> ''risk_flag'' \<longrightarrow> series out c = series ?d c"
    using n r p l by (auto simp: pp th)
  from o(4) have "series out ''ad_click_rate'' = [Float (Some (1 / 2))]"
    by (simp add: s)
  with one o(1,2,3) show ?thesis by blast
qed

text \<open>
  C9 as stated fails: a frame that is not empty gets no risk columns when the
  preprocessor rejects it. Here the pickled preprocessor is a fitted DataProcessor and the
  frame lacks required columns: \<open>predict_dataframe\<close> ends with that error.
\<close>

theorem predict_dataframe_flags_counterexample:
  "\<not> df_empty [(''ad_click_rate'', [Float (Some (1 / 2))])]
   \<and> predict_dataframe no_validator [(''ad_click_rate'', [Float (Some (1 / 2))])]
        sample_artifacts False None
       = Inl (DataProcessingError (MissingColumns
           [''period_start'', ''period_end'', ''session_length_max'', ''session_length_mean'',
            ''avg_tab_cnt'', ''search_freq'']))"
proof -
  let ?d = "[(''ad_click_rate'', [Float (Some (1 / 2))])]"
  have n: "\<not> df_empty ?d" by (simp add: df_empty_def len_def)
  have m: "missing_cols ?d = [''period_start'', ''period_end'', ''session_length_max'',
      ''session_length_mean'', ''avg_tab_cnt'', ''search_freq'']"
    by (simp add: missing_cols_def REQUIRED_COLUMNS_def columns_def)
  have "sample_processor ?d = Inl (DataProcessingError (MissingColumns (missing_cols ?d)))"
    by (simp add: sample_processor_def transform_def fitted_scaler validate_data_def m)
  then show ?thesis
    using n
    by (simp add: predict_dataframe_def revalidate_def load_model_processor_def
          sample_artifacts_def m)
qed

end
